theory Spec2Isabelle
  imports Main "HOL-Library.Sublist" "HOL-Library.Word"
begin

section \<open>The document as the content scripts read it\<close>

text \<open>
  The content scripts never build a document of their own: they query the host page
  (\<^verbatim>\<open>querySelector\<close>, \<^verbatim>\<open>querySelectorAll\<close>) and read a few properties of the elements
  they find. An element is modelled with exactly the properties the scripts read:
  its upper-case \<^verbatim>\<open>tagName\<close>, its \<^verbatim>\<open>classList\<close>, its attributes (an association list:
  \<^verbatim>\<open>getAttribute\<close> returns the first entry), its serialised \<^verbatim>\<open>innerHTML\<close>, the top and
  left coordinate of its bounding box, and its element children in document order.
  The document itself is given as a root of this type whose descendants are the
  elements of the page. Platform names and class names are JavaScript strings, hence
  \<open>string\<close>.
\<close>

datatype element =
  Element (tagName: string) (classList: "string list") (attributes: "(string \<times> string) list")
    (innerHTML: string) (rect_top: int) (rect_left: int) (children: "element list")

text \<open>A node handed to a mutation observer; only elements have \<^verbatim>\<open>nodeType === ELEMENT_NODE\<close>.\<close>

datatype node = ElementNode element | TextNode string | CommentNode string

datatype mutation_type = childList | attributes_changed | characterData

record mutation =
  mutation_type :: mutation_type
  addedNodes :: "node list"
  removedNodes :: "node list"

definition contains_class :: "element \<Rightarrow> string \<Rightarrow> bool" where
  "contains_class e c = (c \<in> set (classList e))"

definition getAttribute :: "element \<Rightarrow> string \<Rightarrow> string option" where
  "getAttribute e a = map_of (attributes e) a"

definition hasAttribute :: "element \<Rightarrow> string \<Rightarrow> bool" where
  "hasAttribute e a = (getAttribute e a \<noteq> None)"

text \<open>
  All descendants of an element in document (pre-)order, each with its chain of
  ancestors, nearest first. The first argument is the chain above the element itself.
\<close>

fun descendants_anc :: "element list \<Rightarrow> element \<Rightarrow> (element list \<times> element) list" where
  "descendants_anc anc (Element t cl at h rt rl cs) =
     concat (map (\<lambda>c. (Element t cl at h rt rl cs # anc, c)
                       # descendants_anc (Element t cl at h rt rl cs # anc) c) cs)"

text \<open>
  The selectors of the source are all descendant-combinator chains of simple selectors:
  \<^verbatim>\<open>'textarea'\<close>, \<^verbatim>\<open>'.chat-input textarea'\<close>, \<^verbatim>\<open>'[data-message-author-role]'\<close>,
  \<^verbatim>\<open>'.markdown'\<close>. A chain is kept in source order; a type selector holds the
  upper-case tag name it matches.
\<close>

datatype simple_selector = ByTag string | ByClass string | ByAttr string

type_synonym selector = "simple_selector list"

fun matches_simple :: "simple_selector \<Rightarrow> element \<Rightarrow> bool" where
  "matches_simple (ByTag t) e = (tagName e = t)"
| "matches_simple (ByClass c) e = contains_class e c"
| "matches_simple (ByAttr a) e = hasAttribute e a"

text \<open>The remaining chain, innermost first, against the ancestors, nearest first.\<close>

fun matches_ancestors :: "simple_selector list \<Rightarrow> element list \<Rightarrow> bool" where
  "matches_ancestors [] anc = True"
| "matches_ancestors (s # ss) [] = False"
| "matches_ancestors (s # ss) (a # anc) =
     (if matches_simple s a then matches_ancestors ss anc
      else matches_ancestors (s # ss) anc)"

definition matches :: "selector \<Rightarrow> element list \<times> element \<Rightarrow> bool" where
  "matches sel ae =
     (case rev sel of
        [] \<Rightarrow> False
      | s # ss \<Rightarrow> matches_simple s (snd ae) \<and> matches_ancestors ss (fst ae))"

text \<open>
  \<^verbatim>\<open>root.querySelectorAll(sel)\<close> and \<^verbatim>\<open>root.querySelector(sel)\<close>: the matching descendants
  of \<open>root\<close> in document order, and the first of them (\<^verbatim>\<open>null\<close> is \<open>None\<close>). The ancestors
  above \<open>root\<close> take part in matching, as they do in the browser.
\<close>

definition querySelectorAll_from :: "element list \<Rightarrow> element \<Rightarrow> selector \<Rightarrow> element list" where
  "querySelectorAll_from anc root sel = map snd (filter (matches sel) (descendants_anc anc root))"

definition querySelectorAll :: "element \<Rightarrow> selector \<Rightarrow> element list" where
  "querySelectorAll root sel = querySelectorAll_from [] root sel"

definition querySelector :: "element \<Rightarrow> selector \<Rightarrow> element option" where
  "querySelector root sel =
     (case querySelectorAll root sel of [] \<Rightarrow> None | e # _ \<Rightarrow> Some e)"

section \<open>DOM utilities: the change observer\<close>

text \<open>
  \<^verbatim>\<open>observeDOMChanges(platform, callback)\<close> registers a \<^verbatim>\<open>MutationObserver\<close> on the body.
  Its handler is modelled as a function of one delivered batch. \<open>node_relevant\<close> is the
  test of the inner \<^verbatim>\<open>forEach\<close>; \<open>shouldCallback\<close> is the flag after both loops; the handler
  runs the callback, a state transformer, when the flag is set.
\<close>

definition node_relevant :: "string \<Rightarrow> node \<Rightarrow> bool" where
  "node_relevant platform n =
     (case n of
        ElementNode e \<Rightarrow>
          (platform = ''chatgpt'' \<and>
             (contains_class e ''markdown'' \<or> hasAttribute e ''data-message-author-role''))
          \<or> (platform = ''mistral'' \<and> contains_class e ''chat-message'')
      | _ \<Rightarrow> False)"

fun scan_addedNodes :: "string \<Rightarrow> node list \<Rightarrow> bool \<Rightarrow> bool" where
  "scan_addedNodes platform [] flag = flag"
| "scan_addedNodes platform (n # ns) flag =
     scan_addedNodes platform ns (if node_relevant platform n then True else flag)"

fun scan_mutations :: "string \<Rightarrow> mutation list \<Rightarrow> bool \<Rightarrow> bool" where
  "scan_mutations platform [] flag = flag"
| "scan_mutations platform (m # ms) flag =
     scan_mutations platform ms
       (if mutation_type m = childList \<and> length (addedNodes m) > 0
        then scan_addedNodes platform (addedNodes m) flag else flag)"

definition shouldCallback :: "string \<Rightarrow> mutation list \<Rightarrow> bool" where
  "shouldCallback platform mutations = scan_mutations platform mutations False"

definition observeDOMChanges_handler ::
  "string \<Rightarrow> ('s \<Rightarrow> 's) \<Rightarrow> mutation list \<Rightarrow> 's \<Rightarrow> 's" where
  "observeDOMChanges_handler platform callback mutations s =
     (if shouldCallback platform mutations then callback s else s)"

text \<open>
  The qualifying nodes of a batch, as the claim counts them: the added nodes of the
  \<^verbatim>\<open>childList\<close> records that are elements satisfying the platform's predicate.
\<close>

definition qualifying_nodes :: "string \<Rightarrow> mutation list \<Rightarrow> node list" where
  "qualifying_nodes platform mutations =
     concat (map (\<lambda>m. if mutation_type m = childList
                       then filter (node_relevant platform) (addedNodes m) else [])
                 mutations)"

section \<open>JavaScript strings and truthiness\<close>

text \<open>
  Names the scripts compare with literals (platforms, classes, tags, attributes) are
  \<open>string\<close>s. Text that comes from the page or from the user and that the scripts trim
  is kept as JavaScript has it, a sequence of UTF-16 code units, so that every string
  and every white-space character of ECMAScript is covered; \<open>js\<close> embeds a literal.
\<close>

type_synonym js_string = "16 word list"

definition js :: "string \<Rightarrow> js_string" where
  "js s = map of_char s"

text \<open>
  \<^verbatim>\<open>String.prototype.trim\<close> strips white space and line terminators from both ends:
  TAB, LF, VT, FF, CR, SPACE, NBSP, U+1680, U+2000 to U+200A, LS, PS, U+202F, U+205F,
  U+3000 and U+FEFF.
\<close>

definition js_whitespace :: "16 word \<Rightarrow> bool" where
  "js_whitespace c =
     (c \<in> set [9, 10, 11, 12, 13, 32, 160, 5760, 8232, 8233, 8239, 8287, 12288, 65279]
      \<or> (8192 \<le> c \<and> c \<le> 8202))"

definition js_trim :: "js_string \<Rightarrow> js_string" where
  "js_trim s = rev (dropWhile js_whitespace (rev (dropWhile js_whitespace s)))"

text \<open>
  A settings flag is read by truthiness: \<^verbatim>\<open>undefined\<close> (\<open>None\<close>) and \<^verbatim>\<open>false\<close> are falsy.
\<close>

definition truthy_flag :: "bool option \<Rightarrow> bool" where
  "truthy_flag v = (case v of None \<Rightarrow> False | Some b \<Rightarrow> b)"

text \<open>\<^verbatim>\<open>haystack.includes(needle)\<close> and \<^verbatim>\<open>s.startsWith(p)\<close>.\<close>

fun js_includes :: "string \<Rightarrow> string \<Rightarrow> bool" where
  "js_includes [] needle = (needle = [])"
| "js_includes (c # cs) needle = (prefix needle (c # cs) \<or> js_includes cs needle)"

definition startsWith :: "string \<Rightarrow> string \<Rightarrow> bool" where
  "startsWith s p = prefix p s"

section \<open>Settings and runtime messages\<close>

text \<open>
  The settings record of the background script. Every property may be missing
  (\<^verbatim>\<open>getSettings\<close> resolves to \<^verbatim>\<open>{}\<close> when the channel answers nothing), so each is an
  option; a flag is read by truthiness.
\<close>

record command =
  cmd_name :: js_string
  cmd_text :: js_string

record sessionRecording_settings =
  enabled :: "bool option"
  autoDelete :: "bool option"
  retentionDays :: "nat option"

record settings =
  theme :: "string option"
  syntaxHighlighting :: "bool option"
  clipboardEnabled :: "bool option"
  commandBarEnabled :: "bool option"
  sessionRecording :: "sessionRecording_settings option"
  consentGiven :: "bool option"
  commands :: "command list option"

definition empty_settings :: settings where
  "empty_settings = \<lparr>theme = None, syntaxHighlighting = None, clipboardEnabled = None,
     commandBarEnabled = None, sessionRecording = None, consentGiven = None, commands = None\<rparr>"

text \<open>\<^verbatim>\<open>getSettings\<close> resolves to \<^verbatim>\<open>response || {}\<close>; the response is the channel's answer.\<close>

definition getSettings :: "settings option \<Rightarrow> settings" where
  "getSettings response = (case response of None \<Rightarrow> empty_settings | Some r \<Rightarrow> r)"

record recorded_message =
  role :: string
  content :: string
  timestamp :: string

text \<open>The messages the content scripts pass to \<^verbatim>\<open>chrome.runtime.sendMessage\<close>.\<close>

datatype runtime_message =
    SAVE_SESSION "recorded_message list" bool
  | SAVE_SETTINGS settings
  | APPLY_THEME string
  | INJECT_POPUP_SCRIPT

section \<open>Session recorder\<close>

text \<open>
  The selector table of the session recorder:
  \<^verbatim>\<open>chatgpt: { chatContainer: '.chat-container', messages: '[data-message-author-role]', inputArea: 'textarea' }\<close>,
  \<^verbatim>\<open>mistral: { chatContainer: '.chat-container', messages: '.chat-message', inputArea: '.chat-input textarea' }\<close>.
  Any other platform has no entry.
\<close>

record recorder_selectors =
  chatContainer :: selector
  messages :: selector
  recorder_inputArea :: selector

definition PLATFORM_SELECTORS_recorder :: "string \<Rightarrow> recorder_selectors option" where
  "PLATFORM_SELECTORS_recorder platform =
     (if platform = ''chatgpt'' then
        Some \<lparr>chatContainer = [ByClass ''chat-container''],
              messages = [ByAttr ''data-message-author-role''],
              recorder_inputArea = [ByTag ''TEXTAREA'']\<rparr>
      else if platform = ''mistral'' then
        Some \<lparr>chatContainer = [ByClass ''chat-container''],
              messages = [ByClass ''chat-message''],
              recorder_inputArea = [ByClass ''chat-input'', ByTag ''TEXTAREA'']\<rparr>
      else None)"

text \<open>
  The module state (\<^verbatim>\<open>isRecording\<close>, \<^verbatim>\<open>recordedSession\<close>), the text of the toggle
  button, the text and the class list of the recording indicator (the leading emoji of
  the text is left out; the indicator is created with the class
  \<^verbatim>\<open>recording-indicator\<close>), the
  messages sent to the background script (oldest first), the number of save
  confirmations shown, whether the message observer was attached (it is attached only
  when the chat container exists at initialisation), and the number of times the clock
  was read. \<^verbatim>\<open>new Date().toISOString()\<close> is \<open>toISOString\<close> of that number: the
  time of the k-th reading is a parameter.
\<close>

record recorder =
  isRecording :: bool
  recordedSession :: "recorded_message list"
  toggleButton_text :: string
  indicator_text :: string
  indicator_classes :: "string list"
  sent :: "runtime_message list"
  confirmations :: nat
  observing :: bool
  clock_reads :: nat

text \<open>
  The consent collaborator (\<^verbatim>\<open>consentManager.js\<close> is not part of the sources at hand) is a
  parameter: \<open>checkConsent force\<close> is the outcome of \<^verbatim>\<open>await checkConsent(force)\<close>, either
  a rejection (\<open>Inl\<close>) or the boolean answer. A call without argument is \<open>checkConsent False\<close>.
\<close>

record environment =
  checkConsent :: "bool \<Rightarrow> string + bool"
  toISOString :: "nat \<Rightarrow> string"

text \<open>\<^verbatim>\<open>recordedSession.push({ role, content, timestamp: new Date().toISOString() })\<close>\<close>

definition push_message :: "environment \<Rightarrow> string \<Rightarrow> string \<Rightarrow> recorder \<Rightarrow> recorder" where
  "push_message env r c s =
     s\<lparr>recordedSession := recordedSession s
          @ [\<lparr>role = r, content = c, timestamp = toISOString env (clock_reads s)\<rparr>],
       clock_reads := Suc (clock_reads s)\<rparr>"

text \<open>\<^verbatim>\<open>if (role && content) { push }\<close>: both must be non-empty strings.\<close>

definition push_if_truthy ::
  "environment \<Rightarrow> string option \<Rightarrow> string option \<Rightarrow> recorder \<Rightarrow> recorder" where
  "push_if_truthy env r c s =
     (case (r, c) of
        (Some r', Some c') \<Rightarrow> if r' \<noteq> [] \<and> c' \<noteq> [] then push_message env r' c' s else s
      | _ \<Rightarrow> s)"

text \<open>
  The body of the loop of \<^verbatim>\<open>captureExistingMessages\<close> for one message. Reading
  \<^verbatim>\<open>.innerHTML\<close> of \<^verbatim>\<open>message.querySelector('.markdown')\<close> throws a TypeError when there is no
  such descendant; the exception leaves the loop and the function (\<open>Inl\<close>, with the state
  reached). On a platform that is neither, role and content stay \<^verbatim>\<open>undefined\<close>.
\<close>

definition capture_message ::
  "environment \<Rightarrow> string \<Rightarrow> element \<Rightarrow> recorder \<Rightarrow> (string \<times> recorder) + recorder" where
  "capture_message env platform message s =
     (if platform = ''chatgpt'' then
        (case querySelector message [ByClass ''markdown''] of
           None \<Rightarrow> Inl (''TypeError'', s)
         | Some md \<Rightarrow>
             Inr (push_if_truthy env (getAttribute message ''data-message-author-role'')
                    (Some (innerHTML md)) s))
      else if platform = ''mistral'' then
        (case querySelector message [ByClass ''message-content''] of
           None \<Rightarrow> Inl (''TypeError'', s)
         | Some mc \<Rightarrow>
             Inr (push_if_truthy env
                    (Some (if contains_class message ''user-message'' then ''user'' else ''assistant''))
                    (Some (innerHTML mc)) s))
      else Inr (push_if_truthy env None None s))"

fun capture_loop ::
  "environment \<Rightarrow> string \<Rightarrow> element list \<Rightarrow> recorder \<Rightarrow> (string \<times> recorder) + recorder" where
  "capture_loop env platform [] s = Inr s"
| "capture_loop env platform (m # ms) s =
     (case capture_message env platform m s of
        Inl e \<Rightarrow> Inl e
      | Inr s' \<Rightarrow> capture_loop env platform ms s')"

definition captureExistingMessages ::
  "environment \<Rightarrow> string \<Rightarrow> recorder_selectors \<Rightarrow> element \<Rightarrow> recorder
     \<Rightarrow> (string \<times> recorder) + recorder" where
  "captureExistingMessages env platform selectors document s =
     capture_loop env platform (querySelectorAll document (messages selectors)) s"

text \<open>
  The handler of the observer set up by \<^verbatim>\<open>setupMessageObserver\<close>. \<open>is_message_node\<close> is
  its test whether an added node is a message: an element that, on chatgpt, has the
  role attribute or, on mistral, the class \<^verbatim>\<open>chat-message\<close>. The handler reads the content
  with \<^verbatim>\<open>?.innerHTML\<close>, so a missing descendant gives \<^verbatim>\<open>undefined\<close> and nothing throws.
\<close>

definition is_message_node :: "string \<Rightarrow> node \<Rightarrow> bool" where
  "is_message_node platform n =
     (case n of
        ElementNode e \<Rightarrow>
          (platform = ''chatgpt'' \<and> hasAttribute e ''data-message-author-role'')
          \<or> (platform = ''mistral'' \<and> contains_class e ''chat-message'')
      | _ \<Rightarrow> False)"

definition observe_node :: "environment \<Rightarrow> string \<Rightarrow> node \<Rightarrow> recorder \<Rightarrow> recorder" where
  "observe_node env platform n s =
     (if is_message_node platform n then
        (case n of
           ElementNode e \<Rightarrow>
             (if platform = ''chatgpt'' then
                push_if_truthy env (getAttribute e ''data-message-author-role'')
                  (map_option innerHTML (querySelector e [ByClass ''markdown''])) s
              else if platform = ''mistral'' then
                push_if_truthy env
                  (Some (if contains_class e ''user-message'' then ''user'' else ''assistant''))
                  (map_option innerHTML (querySelector e [ByClass ''message-content''])) s
              else push_if_truthy env None None s)
         | _ \<Rightarrow> s)
      else s)"

definition observe_mutation :: "environment \<Rightarrow> string \<Rightarrow> mutation \<Rightarrow> recorder \<Rightarrow> recorder" where
  "observe_mutation env platform m s =
     (if mutation_type m = childList \<and> length (addedNodes m) > 0
      then fold (observe_node env platform) (addedNodes m) s else s)"

definition messageObserver_handler ::
  "environment \<Rightarrow> string \<Rightarrow> mutation list \<Rightarrow> recorder \<Rightarrow> recorder" where
  "messageObserver_handler env platform mutations s =
     (if \<not> isRecording s then s else fold (observe_mutation env platform) mutations s)"

text \<open>
  The browser calls the handler with a batch only when \<^verbatim>\<open>observer.observe\<close> was called,
  that is when \<^verbatim>\<open>document.querySelector(selectors.chatContainer)\<close> found the container.
\<close>

definition deliver_mutations ::
  "environment \<Rightarrow> string \<Rightarrow> mutation list \<Rightarrow> recorder \<Rightarrow> recorder" where
  "deliver_mutations env platform mutations s =
     (if observing s then messageObserver_handler env platform mutations s else s)"

text \<open>
  The message nodes a batch adds, in the order the handler meets them: the added nodes
  of its child-list records that pass the handler's test.
\<close>

definition added_messages :: "string \<Rightarrow> mutation list \<Rightarrow> node list" where
  "added_messages platform mutations =
     concat (map (\<lambda>m. if mutation_type m = childList
                       then filter (is_message_node platform) (addedNodes m) else [])
                 mutations)"

text \<open>
  \<^verbatim>\<open>saveSession\<close>: nothing is sent for an empty buffer. Otherwise one \<^verbatim>\<open>SAVE_SESSION\<close>
  message carries the buffer; \<open>response\<close> is the answer of the channel (\<open>None\<close> for
  \<^verbatim>\<open>undefined\<close>, on which reading \<^verbatim>\<open>response.success\<close> throws and is caught).
\<close>

record save_response =
  success :: bool
  error :: "string option"

definition saveSession :: "save_response option \<Rightarrow> recorder \<Rightarrow> recorder" where
  "saveSession response s =
     (if length (recordedSession s) = 0 then s
      else
        let s1 = s\<lparr>sent := sent s @ [SAVE_SESSION (recordedSession s) True]\<rparr>
        in (case response of
              None \<Rightarrow> s1
            | Some r \<Rightarrow> if success r then s1\<lparr>confirmations := Suc (confirmations s1)\<rparr> else s1))"

text \<open>
  \<^verbatim>\<open>toggleRecording\<close>. Starting asks \<^verbatim>\<open>checkConsent(true)\<close>; a rejection is caught and a
  negative answer returns, both without any assignment. Then the flag is set, the
  buffer emptied and the existing messages captured; if capturing throws, the
  \<^verbatim>\<open>catch\<close> leaves the state as it was at the throw and the controls are not updated.
  Stopping clears the flag, saves and resets the controls.
\<close>

definition toggleRecording ::
  "environment \<Rightarrow> string \<Rightarrow> recorder_selectors \<Rightarrow> element \<Rightarrow> save_response option
     \<Rightarrow> recorder \<Rightarrow> recorder" where
  "toggleRecording env platform selectors document response s =
     (if \<not> isRecording s then
        (case checkConsent env True of
           Inl rejected \<Rightarrow> s
         | Inr hasConsent \<Rightarrow>
             if \<not> hasConsent then s
             else
               (case captureExistingMessages env platform selectors document
                       (s\<lparr>isRecording := True, recordedSession := []\<rparr>) of
                  Inl (e, s') \<Rightarrow> s'
                | Inr s' \<Rightarrow>
                    s'\<lparr>toggleButton_text := ''Stop Recording'',
                       indicator_text := ''Recording'',
                       indicator_classes :=
                         (if ''recording-active'' \<in> set (indicator_classes s')
                          then indicator_classes s'
                          else indicator_classes s' @ [''recording-active''])\<rparr>))
      else
        (let s1 = saveSession response (s\<lparr>isRecording := False\<rparr>)
         in s1\<lparr>toggleButton_text := ''Start Recording'',
               indicator_text := ''Not Recording'',
               indicator_classes := removeAll ''recording-active'' (indicator_classes s1)\<rparr>))"

text \<open>
  \<^verbatim>\<open>initSessionRecorder\<close>: no entry for the platform, a rejected or a negative passive
  consent check give no recorder (\<open>None\<close>). Otherwise the controls are created with
  their initial texts unless the page already has them (creating them sends the
  \<^verbatim>\<open>INJECT_POPUP_SCRIPT\<close> message) and the observer is set up; the module variables keep
  their initial values, so the recorder is idle.
\<close>

definition initSessionRecorder :: "environment \<Rightarrow> string \<Rightarrow> element \<Rightarrow> recorder option" where
  "initSessionRecorder env platform document =
     (case PLATFORM_SELECTORS_recorder platform of
        None \<Rightarrow> None
      | Some selectors \<Rightarrow>
          (case checkConsent env False of
             Inl rejected \<Rightarrow> None
           | Inr hasConsent \<Rightarrow>
               if \<not> hasConsent then None
               else Some \<lparr>isRecording = False, recordedSession = [],
                           toggleButton_text = ''Start Recording'',
                           indicator_text = ''Not Recording'',
                           indicator_classes = [''recording-indicator''],
                           sent = (if querySelector document [ByClass ''recording-controls''] = None
                                   then [INJECT_POPUP_SCRIPT] else []),
                           confirmations = 0,
                           observing = (querySelector document (chatContainer selectors) \<noteq> None),
                           clock_reads = 0\<rparr>))"

section \<open>Command bar\<close>

text \<open>
  The selector table of the command bar:
  \<^verbatim>\<open>chatgpt: { inputArea: 'textarea', submitButton: 'button[data-testid="send-button"]' }\<close>,
  \<^verbatim>\<open>mistral: { inputArea: '.chat-input textarea', submitButton: '.chat-input button[type="submit"]' }\<close>.
  An attribute selector with a value is kept as the attribute test on the tag; the
  submit button plays no part in what follows.
\<close>

record commandBar_selectors =
  inputArea :: selector
  submitButton :: selector

definition chatgpt_selectors :: commandBar_selectors where
  "chatgpt_selectors =
     \<lparr>inputArea = [ByTag ''TEXTAREA''], submitButton = [ByTag ''BUTTON'']\<rparr>"

definition mistral_selectors :: commandBar_selectors where
  "mistral_selectors =
     \<lparr>inputArea = [ByClass ''chat-input'', ByTag ''TEXTAREA''],
      submitButton = [ByClass ''chat-input'', ByTag ''BUTTON'']\<rparr>"

definition PLATFORM_SELECTORS_commandBar :: "string \<Rightarrow> commandBar_selectors option" where
  "PLATFORM_SELECTORS_commandBar platform =
     (if platform = ''chatgpt'' then Some chatgpt_selectors
      else if platform = ''mistral'' then Some mistral_selectors
      else None)"

definition DEFAULT_COMMANDS :: "command list" where
  "DEFAULT_COMMANDS =
     [\<lparr>cmd_name = js ''Explain'', cmd_text = js ''Explain this in simple terms: ''\<rparr>,
      \<lparr>cmd_name = js ''Summarize'', cmd_text = js ''Summarize this text: ''\<rparr>,
      \<lparr>cmd_name = js ''Translate'', cmd_text = js ''Translate this to English: ''\<rparr>,
      \<lparr>cmd_name = js ''Code'', cmd_text = js ''Write code to: ''\<rparr>,
      \<lparr>cmd_name = js ''Fix'', cmd_text = js ''Fix this code: ''\<rparr>]"

text \<open>
  A command button is its label and what its click handler passes to
  \<^verbatim>\<open>executeCommand\<close>: the command text and a selector pair. The bar is its \<^verbatim>\<open>display\<close>
  style, its \<^verbatim>\<open>bottom\<close> and \<^verbatim>\<open>left\<close> styles in pixels (unset at first; pixel
  coordinates are read as integers) and the buttons of its commands container.
\<close>

record command_button =
  button_label :: js_string
  button_command :: js_string
  button_selectors :: commandBar_selectors

record commandBar_element =
  display :: string
  style_bottom :: "int option"
  style_left :: "int option"
  command_buttons :: "command_button list"

text \<open>
  The module state: \<^verbatim>\<open>commands\<close> (initially a copy of the defaults), \<^verbatim>\<open>commandBar\<close>
  (initially \<^verbatim>\<open>null\<close>), \<^verbatim>\<open>isCommandBarVisible\<close>, and the messages sent so far.
\<close>

record commandBar_state =
  commandList :: "command list"
  commandBar :: "commandBar_element option"
  isCommandBarVisible :: bool
  sent_settings :: "runtime_message list"

definition initial_commandBar_state :: commandBar_state where
  "initial_commandBar_state =
     \<lparr>commandList = DEFAULT_COMMANDS, commandBar = None, isCommandBarVisible = False,
      sent_settings = []\<rparr>"

definition createCommandBarUI ::
  "string \<Rightarrow> commandBar_selectors \<Rightarrow> commandBar_state \<Rightarrow> commandBar_state" where
  "createCommandBarUI platform selectors s =
     s\<lparr>commandBar :=
         Some \<lparr>display = ''none'', style_bottom = None, style_left = None,
               command_buttons =
                 map (\<lambda>c. \<lparr>button_label = cmd_name c, button_command = cmd_text c,
                             button_selectors = selectors\<rparr>) (commandList s)\<rparr>\<rparr>"

text \<open>
  \<^verbatim>\<open>initCommandBar\<close>: without an entry for the platform nothing happens; persisted
  commands, when the settings have the property (an array is truthy, even an empty
  one), replace the list wholesale; then the bar is built.
\<close>

definition initCommandBar ::
  "string \<Rightarrow> settings option \<Rightarrow> commandBar_state \<Rightarrow> commandBar_state" where
  "initCommandBar platform response s =
     (case PLATFORM_SELECTORS_commandBar platform of
        None \<Rightarrow> s
      | Some selectors \<Rightarrow>
          createCommandBarUI platform selectors
            (case commands (getSettings response) of
               None \<Rightarrow> s
             | Some cs \<Rightarrow> s\<lparr>commandList := cs\<rparr>))"

text \<open>
  \<^verbatim>\<open>a || b\<close> on selector strings: the first operand when it is a non-empty string. The
  empty chain stands for the empty string.
\<close>

definition selector_or :: "selector \<Rightarrow> selector \<Rightarrow> selector" where
  "selector_or a b = (if a \<noteq> [] then a else b)"

text \<open>
  \<^verbatim>\<open>toggleCommandBar\<close> takes no platform. When the bar becomes visible it queries
  \<^verbatim>\<open>PLATFORM_SELECTORS.chatgpt.inputArea || PLATFORM_SELECTORS.mistral.inputArea\<close> and, if
  an element is found, sets \<^verbatim>\<open>bottom\<close> to \<^verbatim>\<open>window.innerHeight - rect.top + 10\<close> and \<^verbatim>\<open>left\<close>
  to \<^verbatim>\<open>rect.left\<close>. With \<^verbatim>\<open>commandBar\<close> still \<^verbatim>\<open>null\<close> the style assignment throws after
  the flag was flipped.
\<close>

definition toggleCommandBar :: "element \<Rightarrow> int \<Rightarrow> commandBar_state \<Rightarrow> commandBar_state" where
  "toggleCommandBar document innerHeight s =
     (let visible = \<not> isCommandBarVisible s;
          s1 = s\<lparr>isCommandBarVisible := visible\<rparr>
      in case commandBar s1 of
           None \<Rightarrow> s1
         | Some bar \<Rightarrow>
             (let bar1 = bar\<lparr>display := (if visible then ''block'' else ''none'')\<rparr>
              in if visible then
                   (case querySelector document
                           (selector_or (inputArea chatgpt_selectors) (inputArea mistral_selectors)) of
                      None \<Rightarrow> s1\<lparr>commandBar := Some bar1\<rparr>
                    | Some area \<Rightarrow>
                        s1\<lparr>commandBar :=
                             Some (bar1\<lparr>style_bottom := Some (innerHeight - rect_top area + 10),
                                        style_left := Some (rect_left area)\<rparr>)\<rparr>)
                 else s1\<lparr>commandBar := Some bar1\<rparr>))"

text \<open>
  \<^verbatim>\<open>addCustomCommand\<close>: push, add a button whose handler uses
  \<^verbatim>\<open>PLATFORM_SELECTORS.chatgpt || PLATFORM_SELECTORS.mistral\<close> (an object is truthy, so the
  first), read the settings, overwrite their \<^verbatim>\<open>commands\<close> with the whole list and send
  them. With \<^verbatim>\<open>commandBar\<close> still \<^verbatim>\<open>null\<close> the query throws after the push and the
  \<^verbatim>\<open>catch\<close> ends the function.
\<close>

definition addCustomCommand ::
  "js_string \<Rightarrow> js_string \<Rightarrow> settings option \<Rightarrow> commandBar_state \<Rightarrow> commandBar_state" where
  "addCustomCommand name txt response s =
     (let s1 = s\<lparr>commandList := commandList s @ [\<lparr>cmd_name = name, cmd_text = txt\<rparr>]\<rparr>
      in case commandBar s1 of
           None \<Rightarrow> s1
         | Some bar \<Rightarrow>
             (let button = \<lparr>button_label = name, button_command = txt,
                            button_selectors = chatgpt_selectors\<rparr>;
                  s2 = s1\<lparr>commandBar :=
                            Some (bar\<lparr>command_buttons := command_buttons bar @ [button]\<rparr>)\<rparr>;
                  settings = (getSettings response)\<lparr>commands := Some (commandList s2)\<rparr>
              in s2\<lparr>sent_settings := sent_settings s2 @ [SAVE_SETTINGS settings]\<rparr>))"

text \<open>
  The click handler of the Add button: both input values are trimmed, and the command
  is added only when both are non-empty afterwards.
\<close>

definition addButton_click ::
  "js_string \<Rightarrow> js_string \<Rightarrow> settings option \<Rightarrow> commandBar_state \<Rightarrow> commandBar_state" where
  "addButton_click name_value text_value response s =
     (let name = js_trim name_value; txt = js_trim text_value
      in if name \<noteq> [] \<and> txt \<noteq> [] then addCustomCommand name txt response s else s)"

section \<open>Theme manager\<close>

definition AVAILABLE_THEMES :: "string list" where
  "AVAILABLE_THEMES = [''light'', ''dark'', ''high-contrast'', ''custom'']"

text \<open>
  \<^verbatim>\<open>DOMTokenList\<close>: \<^verbatim>\<open>remove\<close> drops every listed token; \<^verbatim>\<open>add\<close> appends a token that is
  not yet there, and throws on an empty token (SyntaxError) or one containing ASCII
  white space (InvalidCharacterError).
\<close>

definition classList_remove :: "string list \<Rightarrow> string list \<Rightarrow> string list" where
  "classList_remove classes tokens = filter (\<lambda>c. c \<notin> set tokens) classes"

definition token_whitespace :: "char \<Rightarrow> bool" where
  "token_whitespace c = (of_char c \<in> {9, 10, 12, 13, 32 :: nat})"

definition classList_add :: "string list \<Rightarrow> string \<Rightarrow> string + string list" where
  "classList_add classes token =
     (if token = [] then Inl ''SyntaxError''
      else if list_ex token_whitespace token then Inl ''InvalidCharacterError''
      else if token \<in> set classes then Inr classes
      else Inr (classes @ [token]))"

text \<open>
  A child of the document head with its identity: \<^verbatim>\<open>remove()\<close> takes out the very
  element the module variable refers to, so elements carry an id, and
  \<^verbatim>\<open>document.createElement\<close> hands out the next unused one.
\<close>

record head_child =
  node_id :: nat
  rel :: string
  href :: string

text \<open>
  The module state (\<^verbatim>\<open>currentTheme\<close>, \<^verbatim>\<open>themeStylesheet\<close>) and the parts of the page the
  theme manager writes: the children of the head, the class list of the body and the
  value of the theme selector when the page has one.
\<close>

record theme_state =
  currentTheme :: string
  themeStylesheet :: "head_child option"
  head_children :: "head_child list"
  body_classList :: "string list"
  themeSelector_value :: "string option"
  next_node_id :: nat

text \<open>
  \<^verbatim>\<open>updateSyntaxHighlighterTheme\<close> of the syntax highlighter: the three Prism classes
  are removed and the one for the theme is added, \<^verbatim>\<open>prism-light\<close> by default.
\<close>

definition updateSyntaxHighlighterTheme :: "string \<Rightarrow> string list \<Rightarrow> string list" where
  "updateSyntaxHighlighterTheme themeId classes =
     (let removed = classList_remove classes [''prism-light'', ''prism-dark'', ''prism-high-contrast''];
          added = (if themeId = ''dark'' then ''prism-dark''
                   else if themeId = ''high-contrast'' then ''prism-high-contrast''
                   else ''prism-light'')
      in if added \<in> set removed then removed else removed @ [added])"

text \<open>
  Setting \<^verbatim>\<open>select.value\<close> selects the option with that value; with no such option the
  value reads back as the empty string. The options are the available themes.
\<close>

definition set_select_value :: "string \<Rightarrow> string" where
  "set_select_value v = (if v \<in> set AVAILABLE_THEMES then v else [])"

text \<open>
  The first two blocks of \<^verbatim>\<open>applyTheme\<close>: the stylesheet the module variable refers to is
  removed from the page if there is one; then a new link element is created, assigned
  to the variable, given its \<^verbatim>\<open>rel\<close> and \<^verbatim>\<open>href\<close> and appended to the head. \<open>getURL\<close> is
  \<^verbatim>\<open>chrome.runtime.getURL\<close>.
\<close>

definition replace_themeStylesheet ::
  "(string \<Rightarrow> string) \<Rightarrow> string \<Rightarrow> theme_state \<Rightarrow> theme_state" where
  "replace_themeStylesheet getURL themeId s =
     (let remaining = (case themeStylesheet s of
                         None \<Rightarrow> head_children s
                       | Some old \<Rightarrow> filter (\<lambda>c. node_id c \<noteq> node_id old) (head_children s));
          link = \<lparr>node_id = next_node_id s, rel = ''stylesheet'',
                  href = getURL (''themes/'' @ themeId @ ''.css'')\<rparr>
      in s\<lparr>themeStylesheet := Some link,
           head_children := remaining @ [link],
           next_node_id := Suc (next_node_id s)\<rparr>)"

definition theme_class :: "string \<Rightarrow> string" where
  "theme_class themeId = ''theme-'' @ themeId"

definition theme_classes :: "string list" where
  "theme_classes = [''theme-light'', ''theme-dark'', ''theme-high-contrast'', ''theme-custom'']"

text \<open>The last block: the theme selector, if the page has one, is set to the theme.\<close>

definition update_themeSelector :: "string \<Rightarrow> theme_state \<Rightarrow> theme_state" where
  "update_themeSelector themeId s =
     (case themeSelector_value s of
        None \<Rightarrow> s
      | Some v \<Rightarrow> s\<lparr>themeSelector_value := Some (set_select_value themeId)\<rparr>)"

text \<open>
  \<^verbatim>\<open>applyTheme\<close>. The statements run in source order; the only one that can throw in the
  model is \<^verbatim>\<open>classList.add('theme-' + theme)\<close>, and the \<^verbatim>\<open>catch\<close> then leaves the state
  reached so far.
\<close>

definition applyTheme ::
  "(string \<Rightarrow> string) \<Rightarrow> string \<Rightarrow> string \<Rightarrow> theme_state \<Rightarrow> theme_state" where
  "applyTheme getURL platform themeId s =
     (let s1 = replace_themeStylesheet getURL themeId (s\<lparr>currentTheme := themeId\<rparr>);
          s2 = s1\<lparr>body_classList := classList_remove (body_classList s1) theme_classes\<rparr>
      in case classList_add (body_classList s2) (theme_class themeId) of
           Inl exn \<Rightarrow> s2
         | Inr classes \<Rightarrow>
             update_themeSelector themeId
               (s2\<lparr>body_classList := updateSyntaxHighlighterTheme themeId classes\<rparr>))"

text \<open>
  The theme marker classes of the body are the four that \<^verbatim>\<open>applyTheme\<close> removes, one
  for each available theme; the theme links present are the children of the head that
  are stylesheet links to a theme resource.
\<close>

definition theme_marker_classes :: "theme_state \<Rightarrow> string list" where
  "theme_marker_classes s =
     filter (\<lambda>c. c \<in> set (map theme_class AVAILABLE_THEMES)) (body_classList s)"

text \<open>
  The state when the content script has just been loaded: the module variables have
  their initial values, and the page's own head and body are arbitrary; the ids of the
  page's elements are in use already.
\<close>

definition freshly_loaded :: "theme_state \<Rightarrow> bool" where
  "freshly_loaded s =
     (currentTheme s = ''light'' \<and> themeStylesheet s = None
      \<and> list_all (\<lambda>c. node_id c < next_node_id s) (head_children s))"

text \<open>\<^verbatim>\<open>applyTheme\<close> called once for each theme of a list, in order.\<close>

definition applyThemes ::
  "(string \<Rightarrow> string) \<Rightarrow> string \<Rightarrow> string list \<Rightarrow> theme_state \<Rightarrow> theme_state" where
  "applyThemes getURL platform themeIds s = fold (applyTheme getURL platform) themeIds s"

text \<open>
  What the theme manager maintains about the head: every id is in use, and the head is
  the page's own children followed by the link the module variable refers to, if any.
\<close>

definition managed :: "head_child list \<Rightarrow> theme_state \<Rightarrow> bool" where
  "managed page_head s =
     (list_all (\<lambda>c. node_id c < next_node_id s) (head_children s)
      \<and> (case themeStylesheet s of
            None \<Rightarrow> head_children s = page_head
          | Some link \<Rightarrow> head_children s = page_head @ [link]
                        \<and> list_all (\<lambda>c. node_id c \<noteq> node_id link) page_head))"

section \<open>Syntax highlighter\<close>

text \<open>
  The highlighter writes to the page, so its view of the document is a store of the
  code elements (\<^verbatim>\<open><code>\<close>) in document order and of their parents. A code element has
  its class list, its \<^verbatim>\<open>textContent\<close>, the markup the highlighter has assigned to its
  \<^verbatim>\<open>innerHTML\<close> (\<open>None\<close> as long as it has assigned none; the highlighter never reads
  \<^verbatim>\<open>innerHTML\<close>), its \<^verbatim>\<open>parentElement\<close>, the indices of the code elements it lies inside,
  whether it has an ancestor of class \<^verbatim>\<open>markdown\<close> or \<^verbatim>\<open>chat-message\<close> (what the two
  code-block selectors \<^verbatim>\<open>'.markdown code'\<close> and \<^verbatim>\<open>'.chat-message code'\<close> test), and
  whether it is still in the document. The parent is an entry of the store of parents
  (two code elements may share a parent), or another code element, or \<^verbatim>\<open>null\<close> (\<open>None\<close>)
  once the element has been taken out of its parent. A parent of the store has its tag
  name, its class list, what the highlighter appended to it, and whether the page
  itself already has a descendant of class \<^verbatim>\<open>code-copy-button\<close> below it.
\<close>

datatype parent_ref = ParentElement nat | ParentCode nat

record code_element =
  code_classList :: "string list"
  textContent :: js_string
  innerHTML_assigned :: "js_string option"
  parentElement :: "parent_ref option"
  enclosing_code :: "nat list"
  inside_markdown :: bool
  inside_chat_message :: bool
  in_document :: bool

datatype appended_child = LanguageIndicator string | CopyButton js_string

record parent_element =
  parent_tagName :: string
  parent_classList :: "string list"
  appended :: "appended_child list"
  page_copy_button :: bool

record page =
  code_elements :: "code_element list"
  parents :: "nat \<Rightarrow> parent_element"

text \<open>
  The external highlighting library. \<^verbatim>\<open>window.Prism\<close> may be missing (\<open>None\<close>). Its
  \<^verbatim>\<open>languages\<close> table maps a language name to a grammar, and \<^verbatim>\<open>highlight(code, grammar,
  language)\<close> returns markup or throws (\<open>Inl\<close>); the grammar argument is
  \<^verbatim>\<open>languages[language] || languages.text\<close>, which may still be \<^verbatim>\<open>undefined\<close>. The browser's
  reading of markup back into text (\<^verbatim>\<open>textContent\<close> after \<^verbatim>\<open>innerHTML\<close> was assigned) is
  \<open>text_of_html\<close>. The markup of Prism wraps the tokens of the text and keeps the text
  itself; the text of an enclosing code element is therefore left as it is when an
  enclosed one is highlighted.
\<close>

record 'g prism =
  languages :: "string \<Rightarrow> 'g option"
  highlight :: "js_string \<Rightarrow> 'g option \<Rightarrow> string \<Rightarrow> string + js_string"

record 'g window =
  Prism :: "'g prism option"
  text_of_html :: "js_string \<Rightarrow> js_string"

definition codeBlockSelector_matches :: "string \<Rightarrow> code_element \<Rightarrow> bool option" where
  "codeBlockSelector_matches platform c =
     (if platform = ''chatgpt'' then Some (inside_markdown c)
      else if platform = ''mistral'' then Some (inside_chat_message c)
      else None)"

text \<open>
  \<^verbatim>\<open>Array.from(classList).find(cls => cls.startsWith('language-'))\<close>, and
  \<^verbatim>\<open>cls.replace('language-', '')\<close> on a class that starts with the prefix.
\<close>

definition find_language_class :: "string list \<Rightarrow> string option" where
  "find_language_class classes = find (\<lambda>cls. startsWith cls ''language-'') classes"

definition strip_language :: "string \<Rightarrow> string" where
  "strip_language cls = drop (length ''language-'') cls"

text \<open>
  \<^verbatim>\<open>codeBlock.parentElement.tagName === 'PRE'\<close>: a TypeError when the parent is \<^verbatim>\<open>null\<close>; a
  code element as parent has the tag name \<^verbatim>\<open>CODE\<close>.
\<close>

definition parent_is_PRE :: "page \<Rightarrow> parent_ref option \<Rightarrow> string + bool" where
  "parent_is_PRE d parent =
     (case parent of
        None \<Rightarrow> Inl ''TypeError''
      | Some (ParentElement k) \<Rightarrow> Inr (parent_tagName (parents d k) = ''PRE'')
      | Some (ParentCode k) \<Rightarrow> Inr False)"

text \<open>
  The language: the class of the code element itself, else that of a \<^verbatim>\<open>PRE\<close> parent, else
  \<^verbatim>\<open>text\<close>. The parent is looked at only when the element has no language class.
\<close>

definition determine_language :: "page \<Rightarrow> code_element \<Rightarrow> string + string" where
  "determine_language d c =
     (case find_language_class (code_classList c) of
        Some languageClass \<Rightarrow> Inr (strip_language languageClass)
      | None \<Rightarrow>
          (case parentElement c of
             None \<Rightarrow> Inl ''TypeError''
           | Some (ParentCode k) \<Rightarrow> Inr ''text''
           | Some (ParentElement k) \<Rightarrow>
               if parent_tagName (parents d k) = ''PRE'' then
                 (case find_language_class (parent_classList (parents d k)) of
                    Some preLanguageClass \<Rightarrow> Inr (strip_language preLanguageClass)
                  | None \<Rightarrow> Inr ''text'')
               else Inr ''text''))"

definition grammar_for :: "'g prism \<Rightarrow> string \<Rightarrow> 'g option" where
  "grammar_for p language =
     (case languages p language of Some g \<Rightarrow> Some g | None \<Rightarrow> languages p ''text'')"

text \<open>\<^verbatim>\<open>parent.querySelector('.code-copy-button')\<close> finds something.\<close>

definition has_copy_button :: "parent_element \<Rightarrow> bool" where
  "has_copy_button p =
     (page_copy_button p \<or> list_ex (\<lambda>a. case a of CopyButton _ \<Rightarrow> True | _ \<Rightarrow> False) (appended p))"

definition append_to_parent :: "nat \<Rightarrow> appended_child \<Rightarrow> page \<Rightarrow> page" where
  "append_to_parent k a d =
     d\<lparr>parents := (parents d)(k := (parents d k)\<lparr>appended := appended (parents d k) @ [a]\<rparr>)\<rparr>"

text \<open>
  Assigning \<^verbatim>\<open>innerHTML\<close> of the code element \<open>i\<close> removes its children. Every code element
  lying inside it leaves the document, together with the part of the tree between
  \<open>i\<close> and itself: it is no longer inside \<open>i\<close> or inside what encloses \<open>i\<close> (\<open>outer\<close>),
  and one that was a child of \<open>i\<close> has no parent any more.
\<close>

definition detach :: "nat \<Rightarrow> nat list \<Rightarrow> code_element \<Rightarrow> code_element" where
  "detach i outer c =
     (if i \<in> set (enclosing_code c)
      then c\<lparr>in_document := False,
             parentElement := (if parentElement c = Some (ParentCode i) then None
                               else parentElement c),
             enclosing_code := filter (\<lambda>k. k \<noteq> i \<and> k \<notin> set outer) (enclosing_code c)\<rparr>
      else c)"

text \<open>
  The three assignments after a successful \<^verbatim>\<open>Prism.highlight\<close>: the markup replaces the
  content of the code element (its text is then what the browser reads back from the
  markup) and the marker class is added; the caller has checked that the marker is not
  there yet, so it is appended.
\<close>

definition set_highlighted :: "'g window \<Rightarrow> nat \<Rightarrow> js_string \<Rightarrow> page \<Rightarrow> page" where
  "set_highlighted w i highlightedHTML d =
     d\<lparr>code_elements :=
         map (detach i (enclosing_code (code_elements d ! i)))
           ((code_elements d)
              [i := (code_elements d ! i)
                      \<lparr>innerHTML_assigned := Some highlightedHTML,
                       textContent := text_of_html w highlightedHTML,
                       code_classList :=
                         code_classList (code_elements d ! i) @ [''prism-highlighted'']\<rparr>])\<rparr>"

text \<open>
  The two blocks that follow, still inside the inner \<^verbatim>\<open>try\<close>: a language indicator is
  appended to a \<^verbatim>\<open>PRE\<close> parent when the language is not \<^verbatim>\<open>text\<close>, and a copy button when the
  parent is a \<^verbatim>\<open>PRE\<close> that has none below it. Reading the tag name of a \<^verbatim>\<open>null\<close> parent
  throws in whichever condition comes to it first; the inner \<^verbatim>\<open>catch\<close> takes it, and
  nothing has been appended by then.
\<close>

definition add_decorations :: "string \<Rightarrow> js_string \<Rightarrow> parent_ref option \<Rightarrow> page \<Rightarrow> page" where
  "add_decorations language codeContent parent d =
     (case parent of
        Some (ParentElement k) \<Rightarrow>
          (let pre = (parent_tagName (parents d k) = ''PRE'');
               d1 = (if language \<noteq> ''text'' \<and> pre
                     then append_to_parent k (LanguageIndicator language) d else d)
           in if pre \<and> \<not> has_copy_button (parents d1 k)
              then append_to_parent k (CopyButton codeContent) d1 else d1)
      | _ \<Rightarrow> d)"

text \<open>
  The body of the \<^verbatim>\<open>forEach\<close> for the code element at index \<open>i\<close> of the node list. The
  result is the page and the increment of \<^verbatim>\<open>highlightedCount\<close>, or an exception that
  leaves the callback (\<open>Inl\<close>): determining the language is outside the inner \<^verbatim>\<open>try\<close>.
  The early returns of the source are the branches that give back the page as it is:
  the marker is present, Prism is missing, the trimmed text is empty, or
  \<^verbatim>\<open>Prism.highlight\<close> throws (caught for this element alone).
\<close>

definition highlight_codeBlock :: "'g window \<Rightarrow> nat \<Rightarrow> page \<Rightarrow> string + page \<times> nat" where
  "highlight_codeBlock w i d =
     (let codeBlock = code_elements d ! i in
      if ''prism-highlighted'' \<in> set (code_classList codeBlock) then Inr (d, 0)
      else
        case determine_language d codeBlock of
          Inl exn \<Rightarrow> Inl exn
        | Inr language \<Rightarrow>
            (case Prism w of
               None \<Rightarrow> Inr (d, 0)
             | Some p \<Rightarrow>
                 let codeContent = textContent codeBlock in
                 if js_trim codeContent = [] then Inr (d, 0)
                 else
                   (case highlight p codeContent (grammar_for p language) language of
                      Inl exn \<Rightarrow> Inr (d, 0)
                    | Inr highlightedHTML \<Rightarrow>
                        Inr (add_decorations language codeContent (parentElement codeBlock)
                               (set_highlighted w i highlightedHTML d), 1))))"

text \<open>
  The loop over the static node list. An exception that leaves the callback leaves
  \<^verbatim>\<open>forEach\<close> as well and is caught by the outer \<^verbatim>\<open>catch\<close>: the remaining elements are not
  visited.
\<close>

fun highlight_loop :: "'g window \<Rightarrow> nat list \<Rightarrow> page \<times> nat \<Rightarrow> page \<times> nat" where
  "highlight_loop w [] acc = acc"
| "highlight_loop w (i # is) (d, highlightedCount) =
     (case highlight_codeBlock w i d of
        Inl exn \<Rightarrow> (d, highlightedCount)
      | Inr (d', n) \<Rightarrow> highlight_loop w is (d', highlightedCount + n))"

text \<open>
  \<^verbatim>\<open>document.querySelectorAll(selectors.codeBlockSelector)\<close>: the indices of the code
  elements in the document that the platform's selector matches, in document order.
\<close>

definition codeBlocks :: "string \<Rightarrow> page \<Rightarrow> nat list" where
  "codeBlocks platform d =
     filter (\<lambda>i. in_document (code_elements d ! i)
                 \<and> codeBlockSelector_matches platform (code_elements d ! i) = Some True)
       [0 ..< length (code_elements d)]"

text \<open>
  \<^verbatim>\<open>initSyntaxHighlighter(platform, isReinitialization)\<close>: the page afterwards and the
  number of code elements highlighted by this call. An unsupported platform returns at
  once. The second argument only decides whether a line is logged.
\<close>

definition initSyntaxHighlighter :: "'g window \<Rightarrow> string \<Rightarrow> bool \<Rightarrow> page \<Rightarrow> page \<times> nat" where
  "initSyntaxHighlighter w platform isReinitialization d =
     (if platform \<noteq> ''chatgpt'' \<and> platform \<noteq> ''mistral'' then (d, 0)
      else highlight_loop w (codeBlocks platform d) (d, 0))"

text \<open>
  The code elements a pass leaves as they are: the element has the marker or, with the
  language determined, Prism is missing, the trimmed text is empty or
  \<^verbatim>\<open>Prism.highlight\<close> throws on it.
\<close>

definition skipped :: "'g window \<Rightarrow> page \<Rightarrow> nat \<Rightarrow> bool" where
  "skipped w d i =
     (let codeBlock = code_elements d ! i in
      ''prism-highlighted'' \<in> set (code_classList codeBlock)
      \<or> (case determine_language d codeBlock of
            Inl exn \<Rightarrow> False
          | Inr language \<Rightarrow>
              (case Prism w of
                 None \<Rightarrow> True
               | Some p \<Rightarrow>
                   js_trim (textContent codeBlock) = []
                   \<or> isl (highlight p (textContent codeBlock) (grammar_for p language) language))))"

text \<open>
  A page without nesting: no code element lies inside another, and each has a parent
  in the store of parents.
\<close>

definition flat_element :: "code_element \<Rightarrow> bool" where
  "flat_element c =
     (enclosing_code c = []
      \<and> (case parentElement c of Some (ParentElement k) \<Rightarrow> True | _ \<Rightarrow> False))"

definition flat :: "page \<Rightarrow> bool" where
  "flat d = list_all flat_element (code_elements d)"

text \<open>
  What of a code element a pass rewrites, and what decides whether it is selected.
\<close>

definition content_of :: "code_element \<Rightarrow> string list \<times> js_string \<times> js_string option" where
  "content_of c = (code_classList c, textContent c, innerHTML_assigned c)"

definition selection_of :: "code_element \<Rightarrow> bool \<times> bool \<times> bool" where
  "selection_of c = (in_document c, inside_markdown c, inside_chat_message c)"

text \<open>
  Several calls of \<^verbatim>\<open>initSyntaxHighlighter\<close> one after the other with nothing else
  touching the page in between, one call for each given value of
  \<^verbatim>\<open>isReinitialization\<close>.
\<close>

definition highlighter_passes :: "'g window \<Rightarrow> string \<Rightarrow> bool list \<Rightarrow> page \<Rightarrow> page" where
  "highlighter_passes w platform flags d =
     fold (\<lambda>isReinitialization d'. fst (initSyntaxHighlighter w platform isReinitialization d'))
       flags d"

section \<open>Content script: platform detection and initialisation\<close>

text \<open>
  \<^verbatim>\<open>detectChatbotPlatform\<close>: the address is tested first, then the page is searched for
  an element of class \<^verbatim>\<open>markdown\<close> and then for one of class \<^verbatim>\<open>chat-message\<close>; \<open>None\<close>
  is \<^verbatim>\<open>null\<close>.
\<close>

definition detectChatbotPlatform :: "string \<Rightarrow> element \<Rightarrow> string option" where
  "detectChatbotPlatform url document =
     (if js_includes url ''chat.openai.com'' then Some ''chatgpt''
      else if js_includes url ''mistral.ai'' then Some ''mistral''
      else if querySelector document [ByClass ''markdown''] \<noteq> None then Some ''chatgpt''
      else if querySelector document [ByClass ''chat-message''] \<noteq> None then Some ''mistral''
      else None)"

text \<open>
  What \<^verbatim>\<open>initializeExtension\<close> does is the sequence of calls it makes into the feature
  modules and the browser, in order. \<^verbatim>\<open>initThemeManager\<close> receives \<^verbatim>\<open>settings.theme\<close>, which
  may be \<^verbatim>\<open>undefined\<close>.
\<close>

datatype call =
    InitSyntaxHighlighter string
  | InitClipboardManager string
  | InitThemeManager string "string option"
  | InitCommandBar string
  | InitSessionRecorder string
  | ObserveDOMChanges string
  | AddMessageListener
  | Log string

text \<open>
  Modelled from the spec: \<^verbatim>\<open>clipboardManager.js\<close> is not among the sources. By the error
  handling design every feature module catches its own initialisation errors, so the
  call to \<^verbatim>\<open>initClipboardManager\<close> returns normally (\<open>Inr\<close>), as the calls into the
  modules at hand do: each wraps its body in \<^verbatim>\<open>try\<close>/\<^verbatim>\<open>catch\<close> or is \<^verbatim>\<open>async\<close>.
\<close>

definition initClipboardManager :: "string \<Rightarrow> string + call list" where
  "initClipboardManager platform = Inr [InitClipboardManager platform]"

text \<open>
  The session recorder part of \<^verbatim>\<open>initializeExtension\<close>: reading
  \<^verbatim>\<open>settings.sessionRecording.enabled\<close> throws when the sub-record is missing, and a
  rejected consent check throws as well; the outer \<^verbatim>\<open>catch\<close> logs and ends the routine
  (\<open>Inl\<close>), so the observer and the message listener are not installed.
\<close>

definition start_sessionRecorder ::
  "environment \<Rightarrow> string \<Rightarrow> settings \<Rightarrow> call list + call list" where
  "start_sessionRecorder env platform st =
     (case sessionRecording st of
        None \<Rightarrow> Inl [Log ''Error initializing extension'']
      | Some rec \<Rightarrow>
          if truthy_flag (enabled rec) then
            (case checkConsent env False of
               Inl rejected \<Rightarrow> Inl [Log ''Error initializing extension'']
             | Inr hasConsent \<Rightarrow>
                 if hasConsent then Inr [InitSessionRecorder platform]
                 else Inr [Log ''Session recording disabled: user consent not given''])
          else Inr [])"

text \<open>
  \<^verbatim>\<open>initializeExtension\<close>. An exception of a feature call would reach the outer
  \<^verbatim>\<open>catch\<close>, which logs and ends the routine.
\<close>

definition initializeExtension ::
  "environment \<Rightarrow> string \<Rightarrow> element \<Rightarrow> settings option \<Rightarrow> call list" where
  "initializeExtension env url document response =
     (case detectChatbotPlatform url document of
        None \<Rightarrow> [Log ''Not on a supported chatbot platform'']
      | Some platform \<Rightarrow>
          (let st = getSettings response;
               before = [Log ''Initializing extension'']
                 @ (if truthy_flag (syntaxHighlighting st) then [InitSyntaxHighlighter platform] else [])
           in case (if truthy_flag (clipboardEnabled st) then initClipboardManager platform
                    else Inr []) of
                Inl exn \<Rightarrow> before @ [Log ''Error initializing extension'']
              | Inr clipboard \<Rightarrow>
                  before @ clipboard
                  @ [InitThemeManager platform (theme st)]
                  @ (if truthy_flag (commandBarEnabled st) then [InitCommandBar platform] else [])
                  @ (case start_sessionRecorder env platform st of
                       Inl calls \<Rightarrow> calls
                     | Inr calls \<Rightarrow>
                         calls @ [ObserveDOMChanges platform, AddMessageListener,
                                  Log ''Extension initialized successfully''])))"

section \<open>Concrete pages and batches\<close>

text \<open>
  A batch with two records: a child-list record adding a rendered-markdown element, a
  text node and a message element, and an attribute record.
\<close>

definition batch_example :: "mutation list" where
  "batch_example =
     [\<lparr>mutation_type = childList,
        addedNodes = [ElementNode (Element ''DIV'' [''markdown''] [] [] 0 0 []),
                      TextNode ''x'',
                      ElementNode (Element ''DIV'' [] [(''data-message-author-role'', ''user'')] [] 0 0 [])],
        removedNodes = []\<rparr>,
      \<lparr>mutation_type = attributes_changed, addedNodes = [], removedNodes = []\<rparr>]"

text \<open>
  The selectors of the session recorder for the chatgpt platform, a message element
  with a role attribute and one rendered-markdown child, and two pages whose chat
  container holds three messages with the roles user, assistant, user; on the second
  page the markup of the assistant message is still empty.
\<close>

definition chatgpt_recorder_selectors :: recorder_selectors where
  "chatgpt_recorder_selectors =
     \<lparr>chatContainer = [ByClass ''chat-container''],
      messages = [ByAttr ''data-message-author-role''],
      recorder_inputArea = [ByTag ''TEXTAREA'']\<rparr>"

definition message_element :: "string \<Rightarrow> string \<Rightarrow> element" where
  "message_element r html =
     Element ''DIV'' [] [(''data-message-author-role'', r)] [] 0 0
       [Element ''DIV'' [''markdown''] [] html 0 0 []]"

definition page_three :: element where
  "page_three =
     Element ''#document'' [] [] [] 0 0
       [Element ''DIV'' [''chat-container''] [] [] 0 0
          [message_element ''user'' ''<p>hi</p>'',
           message_element ''assistant'' ''<p>hello</p>'',
           message_element ''user'' ''<p>bye</p>'']]"

definition page_streaming :: element where
  "page_streaming =
     Element ''#document'' [] [] [] 0 0
       [Element ''DIV'' [''chat-container''] [] [] 0 0
          [message_element ''user'' ''<p>hi</p>'',
           message_element ''assistant'' [],
           message_element ''user'' ''<p>bye</p>'']]"

text \<open>
  Three further pages for the recorder. On the first the assistant message has two
  rendered-markdown descendants, an empty one followed by a filled one. The second is
  the page of three messages without a chat container around them. The last wraps a
  message element in another element, as a framework does that inserts a whole turn.
\<close>

definition page_two_markdown :: element where
  "page_two_markdown =
     Element ''#document'' [] [] [] 0 0
       [Element ''DIV'' [''chat-container''] [] [] 0 0
          [message_element ''user'' ''<p>hi</p>'',
           Element ''DIV'' [] [(''data-message-author-role'', ''assistant'')] [] 0 0
             [Element ''DIV'' [''markdown''] [] [] 0 0 [],
              Element ''DIV'' [''markdown''] [] ''<p>hello</p>'' 0 0 []],
           message_element ''user'' ''<p>bye</p>'']]"

definition page_no_container :: element where
  "page_no_container =
     Element ''#document'' [] [] [] 0 0
       [message_element ''user'' ''<p>hi</p>'',
        message_element ''assistant'' ''<p>hello</p>'',
        message_element ''user'' ''<p>bye</p>'']"

definition fourth_message :: element where
  "fourth_message = message_element ''assistant'' ''<p>ok</p>''"

definition wrapped_fourth_message :: element where
  "wrapped_fourth_message = Element ''DIV'' [''turn''] [] [] 0 0 [fourth_message]"

definition adding :: "element \<Rightarrow> mutation" where
  "adding e = \<lparr>mutation_type = childList, addedNodes = [ElementNode e], removedNodes = []\<rparr>"

definition env_consenting :: environment where
  "env_consenting = \<lparr>checkConsent = (\<lambda>force. Inr True), toISOString = (\<lambda>k. ''T'')\<rparr>"

definition env_declining :: environment where
  "env_declining = \<lparr>checkConsent = (\<lambda>force. if force then Inr False else Inr True),
                     toISOString = (\<lambda>k. ''T'')\<rparr>"

definition idle_recorder :: recorder where
  "idle_recorder =
     \<lparr>isRecording = False, recordedSession = [], toggleButton_text = ''Start Recording'',
      indicator_text = ''Not Recording'',
      indicator_classes = [''recording-indicator''], sent = [],
      confirmations = 0, observing = True, clock_reads = 0\<rparr>"

definition recording_recorder :: recorder where
  "recording_recorder = idle_recorder\<lparr>isRecording := True\<rparr>"

text \<open>The role and content of a recorded message, without its timestamp.\<close>

definition entry :: "recorded_message \<Rightarrow> string \<times> string" where
  "entry m = (role m, content m)"

text \<open>
  A page of the mistral platform on which a search box, also a \<^verbatim>\<open>textarea\<close>, precedes the
  chat input: the search box is at top 10, left 500, the chat input's own
  \<^verbatim>\<open>textarea\<close> at top 700, left 24.
\<close>

definition mistral_page :: element where
  "mistral_page =
     Element ''#document'' [] [] [] 0 0
       [Element ''TEXTAREA'' [''search-box''] [] [] 10 500 [],
        Element ''DIV'' [''chat-input''] [] [] 690 20
          [Element ''TEXTAREA'' [] [] [] 700 24 []]]"

text \<open>Stored settings that already hold one custom command.\<close>

definition stored_settings :: settings where
  "stored_settings =
     empty_settings\<lparr>theme := Some ''dark'',
       commands := Some [\<lparr>cmd_name = js ''Old'', cmd_text = js ''Old text''\<rparr>]\<rparr>"

text \<open>
  A freshly loaded page whose head holds one element of its own and whose body already
  carries a theme class, and a resource locator for the extension.
\<close>

definition loaded_page :: theme_state where
  "loaded_page =
     \<lparr>currentTheme = ''light'', themeStylesheet = None,
      head_children = [\<lparr>node_id = 0, rel = ''icon'', href = ''favicon.ico''\<rparr>],
      body_classList = [''theme-dark'', ''app''],
      themeSelector_value = None, next_node_id = 1\<rparr>"

definition extension_url :: "string \<Rightarrow> string" where
  "extension_url path = ''chrome-extension://id/'' @ path"

text \<open>
  A window with a small Prism: the grammars \<^verbatim>\<open>text\<close> and \<^verbatim>\<open>js\<close> exist, highlighting wraps
  the code in one \<^verbatim>\<open>span\<close> and fails without a grammar, and the browser reads the text
  back by dropping the wrapper.
\<close>

definition example_prism :: "unit prism" where
  "example_prism =
     \<lparr>languages = (\<lambda>l. if l = ''text'' \<or> l = ''js'' then Some () else None),
      highlight = (\<lambda>code g l. case g of None \<Rightarrow> Inl ''no grammar''
                                | Some u \<Rightarrow> Inr (js ''<span>'' @ code @ js ''</span>''))\<rparr>"

definition example_window :: "unit window" where
  "example_window =
     \<lparr>Prism = Some example_prism,
      text_of_html = (\<lambda>h. take (length h - 13) (drop 6 h))\<rparr>"

text \<open>
  A paragraph and a \<^verbatim>\<open>PRE\<close> as parents. On the first page the paragraph holds a code
  element with another code element as its child, and the \<^verbatim>\<open>PRE\<close> holds a code block:
  \<^verbatim>\<open><p><code>a<code>b</code></code></p><pre><code class="language-js">c</code></pre>\<close>.
  The second page is the same except that the inner code element has a language class
  and holds a single blank:
  \<^verbatim>\<open><p><code>a<code class="language-js"> </code></code></p><pre>...</pre>\<close>.
  The third page has no nesting: an inline code element whose text is an ideographic
  space and a tab, and the code block.
\<close>

definition example_parents :: "nat \<Rightarrow> parent_element" where
  "example_parents k =
     (if k = 1 then \<lparr>parent_tagName = ''PRE'', parent_classList = [], appended = [],
                      page_copy_button = False\<rparr>
      else \<lparr>parent_tagName = ''P'', parent_classList = [], appended = [],
             page_copy_button = False\<rparr>)"

definition code_block_c :: code_element where
  "code_block_c =
     \<lparr>code_classList = [''language-js''], textContent = js ''c'', innerHTML_assigned = None,
      parentElement = Some (ParentElement 1), enclosing_code = [],
      inside_markdown = True, inside_chat_message = False, in_document = True\<rparr>"

definition nested_page :: page where
  "nested_page =
     \<lparr>code_elements =
        [\<lparr>code_classList = [], textContent = js ''ab'', innerHTML_assigned = None,
          parentElement = Some (ParentElement 0), enclosing_code = [],
          inside_markdown = True, inside_chat_message = False, in_document = True\<rparr>,
         \<lparr>code_classList = [], textContent = js ''b'', innerHTML_assigned = None,
          parentElement = Some (ParentCode 0), enclosing_code = [0],
          inside_markdown = True, inside_chat_message = False, in_document = True\<rparr>,
         code_block_c],
      parents = example_parents\<rparr>"

definition nested_blank_page :: page where
  "nested_blank_page =
     \<lparr>code_elements =
        [\<lparr>code_classList = [], textContent = js ''a '', innerHTML_assigned = None,
          parentElement = Some (ParentElement 0), enclosing_code = [],
          inside_markdown = True, inside_chat_message = False, in_document = True\<rparr>,
         \<lparr>code_classList = [''language-js''], textContent = js '' '', innerHTML_assigned = None,
          parentElement = Some (ParentCode 0), enclosing_code = [0],
          inside_markdown = True, inside_chat_message = False, in_document = True\<rparr>,
         code_block_c],
      parents = example_parents\<rparr>"

definition plain_page :: page where
  "plain_page =
     \<lparr>code_elements =
        [\<lparr>code_classList = [], textContent = [12288, 9], innerHTML_assigned = None,
          parentElement = Some (ParentElement 0), enclosing_code = [],
          inside_markdown = True, inside_chat_message = False, in_document = True\<rparr>,
         code_block_c],
      parents = example_parents\<rparr>"

text \<open>Settings in which every feature toggle is off.\<close>

definition all_disabled :: settings where
  "all_disabled =
     empty_settings\<lparr>syntaxHighlighting := Some False, clipboardEnabled := Some False,
       commandBarEnabled := Some False,
       sessionRecording := Some \<lparr>enabled = Some False, autoDelete = Some True,
                                  retentionDays = Some 7\<rparr>\<rparr>"

text \<open>A page whose only message element has no rendered-markdown descendant.\<close>

definition page_bare :: element where
  "page_bare =
     Element ''#document'' [] [] [] 0 0
       [Element ''DIV'' [''chat-container''] [] [] 0 0
          [Element ''DIV'' [] [(''data-message-author-role'', ''user'')] ''hi'' 0 0 []]]"

section \<open>Properties of the change observer\<close>

lemma scan_addedNodes_eq:
  "scan_addedNodes platform ns flag = (flag \<or> list_ex (node_relevant platform) ns)"
  by (induction ns arbitrary: flag) auto

lemma scan_mutations_eq:
  "scan_mutations platform ms flag = (flag \<or> qualifying_nodes platform ms \<noteq> [])"
  by (induction ms arbitrary: flag)
     (auto simp: qualifying_nodes_def scan_addedNodes_eq list_ex_iff filter_empty_conv)

lemma shouldCallback_iff:
  "shouldCallback platform ms = (qualifying_nodes platform ms \<noteq> [])"
  by (simp add: shouldCallback_def scan_mutations_eq)

text \<open>
  Claim C3. For every platform, callback and batch: when the batch has at least one
  qualifying added element node, the handler runs the callback once on the state
  (the result is \<open>callback s\<close>, however many nodes qualify); when it has none, which
  includes batches of removals and attribute changes only, the state is returned
  untouched. Counting invocations with the callback \<open>Suc\<close> from \<open>0\<close> gives one and zero.
\<close>

theorem observer_batch_coalescing:
  "observeDOMChanges_handler platform callback mutations s =
     (if 1 \<le> length (qualifying_nodes platform mutations) then callback s else s)
   \<and> observeDOMChanges_handler platform Suc mutations 0 =
     (if 1 \<le> length (qualifying_nodes platform mutations) then 1 else 0)"
  by (cases "qualifying_nodes platform mutations")
     (simp_all add: observeDOMChanges_handler_def shouldCallback_iff)

theorem observer_batch_coalescing_witness:
  "length (qualifying_nodes ''chatgpt'' batch_example) = 2
   \<and> observeDOMChanges_handler ''chatgpt'' Suc batch_example 0 = 1"
  using observer_batch_coalescing [of "''chatgpt''" Suc batch_example 0]
  by (simp add: batch_example_def qualifying_nodes_def node_relevant_def contains_class_def
        hasAttribute_def getAttribute_def)

section \<open>Properties of the session recorder\<close>

lemma saveSession_sent:
  "sent (saveSession response s) =
     (if recordedSession s = [] then sent s
      else sent s @ [SAVE_SESSION (recordedSession s) True])"
  by (simp add: saveSession_def Let_def split: option.splits)

lemma saveSession_isRecording: "isRecording (saveSession response s) = isRecording s"
  by (simp add: saveSession_def Let_def split: option.splits)

lemma toggleRecording_stop:
  "isRecording s \<Longrightarrow>
     sent (toggleRecording env platform selectors document response s)
       = sent (saveSession response (s\<lparr>isRecording := False\<rparr>))
     \<and> isRecording (toggleRecording env platform selectors document response s) = False"
  by (simp add: toggleRecording_def Let_def saveSession_isRecording)

lemma toggleRecording_start:
  "\<not> isRecording s \<Longrightarrow> checkConsent env True = Inr True \<Longrightarrow>
     captureExistingMessages env platform selectors document
       (s\<lparr>isRecording := True, recordedSession := []\<rparr>) = Inr s' \<Longrightarrow>
     isRecording (toggleRecording env platform selectors document response s) = isRecording s'
     \<and> recordedSession (toggleRecording env platform selectors document response s)
         = recordedSession s'
     \<and> sent (toggleRecording env platform selectors document response s) = sent s'
     \<and> observing (toggleRecording env platform selectors document response s) = observing s'
     \<and> clock_reads (toggleRecording env platform selectors document response s) = clock_reads s'"
  by (simp add: toggleRecording_def)

lemma initSessionRecorder_idle:
  "initSessionRecorder env platform document = Some s \<Longrightarrow> \<not> isRecording s"
  by (auto simp: initSessionRecorder_def split: option.splits sum.splits if_splits)

text \<open>
  Claim C4. From the idle state the recorder is recording after \<^verbatim>\<open>toggleRecording\<close> only
  if the consent check forced at this very call, \<^verbatim>\<open>checkConsent(true)\<close>, answered yes. The
  answer of the passive check \<^verbatim>\<open>checkConsent()\<close> made at page load is not consulted (the
  statement holds whatever it is), and on any other outcome of the forced check, a
  negative answer or a rejection, the whole state is unchanged.
\<close>

theorem consent_gates_start:
  assumes "\<not> isRecording s"
  shows "(isRecording (toggleRecording env platform selectors document response s)
            \<longrightarrow> checkConsent env True = Inr True)
         \<and> (checkConsent env True \<noteq> Inr True
            \<longrightarrow> toggleRecording env platform selectors document response s = s)"
  using assms
  by (auto simp: toggleRecording_def split: sum.splits prod.splits)

theorem consent_gates_start_witness:
  "\<not> isRecording idle_recorder
   \<and> checkConsent env_declining False = Inr True
   \<and> checkConsent env_declining True \<noteq> Inr True
   \<and> toggleRecording env_declining ''chatgpt'' chatgpt_recorder_selectors page_three None
         idle_recorder = idle_recorder"
  using consent_gates_start [of idle_recorder env_declining "''chatgpt''"
      chatgpt_recorder_selectors page_three None]
  by (simp add: idle_recorder_def env_declining_def)

text \<open>
  Claim C6. Stopping a recording whose buffer has length zero sends nothing: the
  messages sent are the same before and after, the recorder is idle, and
  \<^verbatim>\<open>saveSession\<close> itself returns the state as it got it.
\<close>

theorem empty_session_not_saved:
  assumes "isRecording s" and "length (recordedSession s) = 0"
  shows "sent (toggleRecording env platform selectors document response s) = sent s
         \<and> \<not> isRecording (toggleRecording env platform selectors document response s)
         \<and> saveSession response (s\<lparr>isRecording := False\<rparr>) = s\<lparr>isRecording := False\<rparr>"
  using assms by (simp add: toggleRecording_def saveSession_def Let_def)


theorem empty_session_not_saved_witness:
  "isRecording recording_recorder \<and> length (recordedSession recording_recorder) = 0
   \<and> sent (toggleRecording env_consenting ''chatgpt'' chatgpt_recorder_selectors page_three
              (Some \<lparr>success = True, error = None\<rparr>) recording_recorder) = []"
  using empty_session_not_saved [of recording_recorder env_consenting "''chatgpt''"
      chatgpt_recorder_selectors page_three "Some \<lparr>success = True, error = None\<rparr>"]
  by (simp add: recording_recorder_def idle_recorder_def)

lemma observe_node_other:
  "\<not> is_message_node platform n \<Longrightarrow> observe_node env platform n s = s"
  by (simp add: observe_node_def)

lemma fold_observe_filter:
  "fold (observe_node env platform) ns s
     = fold (observe_node env platform) (filter (is_message_node platform) ns) s"
  by (induction ns arbitrary: s) (simp_all add: observe_node_other)

lemma observe_mutation_added:
  "observe_mutation env platform m s
     = fold (observe_node env platform)
         (if mutation_type m = childList
          then filter (is_message_node platform) (addedNodes m) else []) s"
  using fold_observe_filter [of env platform "addedNodes m" s]
  by (simp add: observe_mutation_def)

lemma fold_observe_mutations:
  "fold (observe_mutation env platform) mutations s
     = fold (observe_node env platform) (added_messages platform mutations) s"
  by (induction mutations arbitrary: s)
     (simp_all add: added_messages_def observe_mutation_added)

lemma deliver_added_messages:
  "observing s \<Longrightarrow> isRecording s \<Longrightarrow>
     deliver_mutations env platform mutations s
       = fold (observe_node env platform) (added_messages platform mutations) s"
  by (simp add: deliver_mutations_def messageObserver_handler_def fold_observe_mutations)

text \<open>
  Claim C1, as amended. On the chatgpt platform, let the page hold exactly three
  message elements, with the role attributes user, assistant, user, and let the first
  rendered-markdown descendant of each, the one the recorder reads, have non-empty
  markup; let the recorder be idle with its observer attached (the chat container was
  there at initialisation), and the forced consent check answer yes. Then starting
  the recording buffers the three messages in document order with their markup. Let
  any batch be delivered whose child-list records have, among their added nodes,
  exactly one message node, an element with role assistant whose first
  rendered-markdown descendant has non-empty markup: it is appended as fourth entry.
  Stopping then sends exactly one \<^verbatim>\<open>SAVE_SESSION\<close> message, which carries these four
  entries in that order.
\<close>

theorem recording_scenario:
  assumes idle: "\<not> isRecording s" and attached: "observing s"
    and consent: "checkConsent env True = Inr True"
    and platform: "PLATFORM_SELECTORS_recorder ''chatgpt'' = Some selectors"
    and existing: "querySelectorAll document (messages selectors) = [msg_a, msg_b, msg_c]"
    and roles: "map (\<lambda>m. getAttribute m ''data-message-author-role'') [msg_a, msg_b, msg_c, msg_d]
                  = [Some ''user'', Some ''assistant'', Some ''user'', Some ''assistant'']"
    and rendered: "map (\<lambda>m. querySelector m [ByClass ''markdown'']) [msg_a, msg_b, msg_c, msg_d]
                  = [Some html_a, Some html_b, Some html_c, Some html_d]"
    and nonempty: "\<forall>d \<in> set [html_a, html_b, html_c, html_d]. innerHTML d \<noteq> []"
    and batch: "added_messages ''chatgpt'' mutations = [ElementNode msg_d]"
  shows "let s1 = toggleRecording env ''chatgpt'' selectors document response s;
             s2 = deliver_mutations env ''chatgpt'' mutations s1;
             s3 = toggleRecording env ''chatgpt'' selectors document' response' s2
         in isRecording s1
            \<and> map entry (recordedSession s1)
                = [(''user'', innerHTML html_a), (''assistant'', innerHTML html_b),
                   (''user'', innerHTML html_c)]
            \<and> map entry (recordedSession s2)
                = [(''user'', innerHTML html_a), (''assistant'', innerHTML html_b),
                   (''user'', innerHTML html_c), (''assistant'', innerHTML html_d)]
            \<and> \<not> isRecording s3
            \<and> sent s3 = sent s @ [SAVE_SESSION (recordedSession s2) True]"
proof -
  let ?s0 = "s\<lparr>isRecording := True, recordedSession := []\<rparr>"
  let ?s1 = "toggleRecording env ''chatgpt'' selectors document response s"
  have cap: "captureExistingMessages env ''chatgpt'' selectors document ?s0
        = Inr (push_message env ''user'' (innerHTML html_c)
                (push_message env ''assistant'' (innerHTML html_b)
                  (push_message env ''user'' (innerHTML html_a) ?s0)))"
    using existing roles rendered nonempty
    by (simp add: captureExistingMessages_def capture_message_def push_if_truthy_def)
  note start = toggleRecording_start [OF idle consent cap, of response]
  have rec: "isRecording ?s1" and obs: "observing ?s1"
    using start attached by (simp_all add: push_message_def)
  have msg: "is_message_node ''chatgpt'' (ElementNode msg_d)"
    using roles by (simp add: is_message_node_def hasAttribute_def)
  have deliver: "deliver_mutations env ''chatgpt'' mutations ?s1
      = push_message env ''assistant'' (innerHTML html_d) ?s1"
    using roles rendered nonempty msg
    by (simp add: deliver_added_messages [OF obs rec] batch observe_node_def push_if_truthy_def)
  have first: "map entry (recordedSession ?s1)
                = [(''user'', innerHTML html_a), (''assistant'', innerHTML html_b),
                   (''user'', innerHTML html_c)]"
    and sent_start: "sent ?s1 = sent s"
    using start by (simp_all add: push_message_def entry_def)
  have second: "map entry (recordedSession (push_message env ''assistant'' (innerHTML html_d) ?s1))
                = [(''user'', innerHTML html_a), (''assistant'', innerHTML html_b),
                   (''user'', innerHTML html_c), (''assistant'', innerHTML html_d)]"
    and still: "isRecording (push_message env ''assistant'' (innerHTML html_d) ?s1)"
    and sent_same: "sent (push_message env ''assistant'' (innerHTML html_d) ?s1) = sent s"
    and filled: "recordedSession (push_message env ''assistant'' (innerHTML html_d) ?s1) \<noteq> []"
    using first rec sent_start by (simp_all add: push_message_def entry_def)
  show ?thesis
    unfolding Let_def deliver
    using rec first second sent_same filled toggleRecording_stop [OF still, of env "''chatgpt''" selectors document' response']
    by (simp add: saveSession_sent push_message_def)
qed

theorem recording_scenario_witness:
  "let batch = [adding (Element ''DIV'' [''spinner''] [] [] 0 0 []), adding fourth_message];
       s1 = toggleRecording env_consenting ''chatgpt'' chatgpt_recorder_selectors page_three None
              idle_recorder;
       s2 = deliver_mutations env_consenting ''chatgpt'' batch s1;
       s3 = toggleRecording env_consenting ''chatgpt'' chatgpt_recorder_selectors page_three None s2
   in added_messages ''chatgpt'' batch = [ElementNode fourth_message]
      \<and> map entry (recordedSession s2)
        = [(''user'', ''<p>hi</p>''), (''assistant'', ''<p>hello</p>''), (''user'', ''<p>bye</p>''),
           (''assistant'', ''<p>ok</p>'')]
      \<and> sent s3 = [SAVE_SESSION (recordedSession s2) True]"
proof -
  let ?batch = "[adding (Element ''DIV'' [''spinner''] [] [] 0 0 []), adding fourth_message]"
  have sel: "PLATFORM_SELECTORS_recorder ''chatgpt'' = Some chatgpt_recorder_selectors"
    by (simp add: PLATFORM_SELECTORS_recorder_def chatgpt_recorder_selectors_def)
  have ex: "querySelectorAll page_three (messages chatgpt_recorder_selectors)
      = [message_element ''user'' ''<p>hi</p>'', message_element ''assistant'' ''<p>hello</p>'',
         message_element ''user'' ''<p>bye</p>'']"
    by code_simp
  have md: "\<And>r h. querySelector (message_element r h) [ByClass ''markdown'']
      = Some (Element ''DIV'' [''markdown''] [] h 0 0 [])"
    by (simp add: querySelector_def querySelectorAll_def querySelectorAll_from_def
          message_element_def matches_def contains_class_def)
  have at: "\<And>r h. getAttribute (message_element r h) ''data-message-author-role'' = Some r"
    by (simp add: getAttribute_def message_element_def)
  have batch: "added_messages ''chatgpt'' ?batch = [ElementNode fourth_message]"
    by code_simp
  have idle: "\<not> isRecording idle_recorder" and attached: "observing idle_recorder"
    and sent_nothing: "sent idle_recorder = []"
    by (simp_all add: idle_recorder_def)
  have consent: "checkConsent env_consenting True = Inr True"
    by (simp add: env_consenting_def)
  have fourth: "querySelector fourth_message [ByClass ''markdown'']
      = Some (Element ''DIV'' [''markdown''] [] ''<p>ok</p>'' 0 0 [])"
    and fourth_role: "getAttribute fourth_message ''data-message-author-role'' = Some ''assistant''"
    by (simp_all add: fourth_message_def md at)
  show ?thesis
    using recording_scenario [where s = idle_recorder and env = env_consenting
        and selectors = chatgpt_recorder_selectors and document = page_three
        and msg_a = "message_element ''user'' ''<p>hi</p>''"
        and msg_b = "message_element ''assistant'' ''<p>hello</p>''"
        and msg_c = "message_element ''user'' ''<p>bye</p>''"
        and msg_d = fourth_message
        and html_a = "Element ''DIV'' [''markdown''] [] ''<p>hi</p>'' 0 0 []"
        and html_b = "Element ''DIV'' [''markdown''] [] ''<p>hello</p>'' 0 0 []"
        and html_c = "Element ''DIV'' [''markdown''] [] ''<p>bye</p>'' 0 0 []"
        and html_d = "Element ''DIV'' [''markdown''] [] ''<p>ok</p>'' 0 0 []"
        and mutations = ?batch
        and response = None and response' = None and document' = page_three,
        OF idle attached consent sel ex _ _ _ batch]
    by (simp add: md at fourth fourth_role batch sent_nothing Let_def)
qed

text \<open>
  The claim as stated fails, in three ways. First, on a page with three message
  elements of roles user, assistant, user where the assistant message has an empty
  rendered-markdown element before a filled one, starting the recording buffers two
  entries, not three: the recorder reads the first such element and passes over a
  message whose markup is empty. Second, on a page without a chat container the
  recorder is initialised without an attached observer, and a fourth message added
  while it records is not buffered. Third, with the observer attached, a fourth message
  that is added inside a wrapper element, not as an added node itself, is not buffered
  either.
\<close>

theorem recording_scenario_counterexample:
  "map (\<lambda>m. getAttribute m ''data-message-author-role'')
       (querySelectorAll page_two_markdown (messages chatgpt_recorder_selectors))
     = [Some ''user'', Some ''assistant'', Some ''user'']
   \<and> map role (recordedSession
         (toggleRecording env_consenting ''chatgpt'' chatgpt_recorder_selectors page_two_markdown
            None idle_recorder))
     = [''user'', ''user'']
   \<and> map_option
         (\<lambda>s0. (observing s0,
                 map role (recordedSession
                   (deliver_mutations env_consenting ''chatgpt'' [adding fourth_message]
                      (toggleRecording env_consenting ''chatgpt'' chatgpt_recorder_selectors
                         page_no_container None s0)))))
         (initSessionRecorder env_consenting ''chatgpt'' page_no_container)
     = Some (False, [''user'', ''assistant'', ''user''])
   \<and> observing idle_recorder
   \<and> map role (recordedSession
         (deliver_mutations env_consenting ''chatgpt'' [adding wrapped_fourth_message]
            (toggleRecording env_consenting ''chatgpt'' chatgpt_recorder_selectors page_three
               None idle_recorder)))
     = [''user'', ''assistant'', ''user'']"
  by code_simp

text \<open>
  A message element without a rendered-markdown descendant makes
  \<^verbatim>\<open>captureExistingMessages\<close> throw: the recording flag is already set, nothing is
  buffered, and the controls still read as idle. The observer, reading with \<^verbatim>\<open>?.\<close>, passes
  such an element over.
\<close>

lemma capture_throws_without_markdown:
  "(let s = toggleRecording env_consenting ''chatgpt'' chatgpt_recorder_selectors page_bare None
              idle_recorder
    in (isRecording s, recordedSession s, toggleButton_text s))
     = (True, [], ''Start Recording'')
   \<and> deliver_mutations env_consenting ''chatgpt''
         [\<lparr>mutation_type = childList,
           addedNodes = [ElementNode
             (Element ''DIV'' [] [(''data-message-author-role'', ''user'')] ''hi'' 0 0 [])],
           removedNodes = []\<rparr>] recording_recorder
       = recording_recorder"
  by code_simp

section \<open>Properties of the command bar\<close>

lemma toggle_selector:
  "selector_or (inputArea chatgpt_selectors) (inputArea mistral_selectors) = [ByTag ''TEXTAREA'']"
  by (simp add: selector_or_def chatgpt_selectors_def)

lemma addButton_click_cases:
  "addButton_click name_value text_value response s
     = (if js_trim name_value \<noteq> [] \<and> js_trim text_value \<noteq> []
        then addCustomCommand (js_trim name_value) (js_trim text_value) response s else s)"
  by (simp add: addButton_click_def Let_def)

lemma addCustomCommand_with_bar:
  assumes "commandBar s = Some bar"
  shows "commandList (addCustomCommand name txt response s)
           = commandList s @ [\<lparr>cmd_name = name, cmd_text = txt\<rparr>]
     \<and> commandBar (addCustomCommand name txt response s)
           = Some (bar\<lparr>command_buttons := command_buttons bar
                @ [\<lparr>button_label = name, button_command = txt,
                    button_selectors = chatgpt_selectors\<rparr>]\<rparr>)
     \<and> sent_settings (addCustomCommand name txt response s)
           = sent_settings s
             @ [SAVE_SETTINGS ((getSettings response)
                  \<lparr>commands := Some (commandList s @ [\<lparr>cmd_name = name, cmd_text = txt\<rparr>])\<rparr>)]"
  using assms by (simp add: addCustomCommand_def Let_def)

lemma initCommandBar_defaults:
  assumes "PLATFORM_SELECTORS_commandBar platform = Some selectors"
    and "commands (getSettings stored) = None"
  shows "commandList (initCommandBar platform stored initial_commandBar_state) = DEFAULT_COMMANDS
     \<and> sent_settings (initCommandBar platform stored initial_commandBar_state) = []
     \<and> commandBar (initCommandBar platform stored initial_commandBar_state)
         = Some \<lparr>display = ''none'', style_bottom = None, style_left = None,
                  command_buttons =
                    map (\<lambda>c. \<lparr>button_label = cmd_name c, button_command = cmd_text c,
                                button_selectors = selectors\<rparr>) DEFAULT_COMMANDS\<rparr>"
  using assms
  by (simp add: initCommandBar_def createCommandBarUI_def initial_commandBar_state_def)

text \<open>
  Claim C8. On a supported platform with no persisted command list, the command bar
  starts with the five built-in commands and five buttons. Adding a custom command,
  whatever its name and text (so also \<^verbatim>\<open>{name: "Foo", text: "Do foo: "}\<close>), appends it to
  the list, gives six buttons labelled with the six command names in order, and sends
  one \<^verbatim>\<open>SAVE_SETTINGS\<close> message with the settings just read whose command list is
  overwritten by the whole in-memory list of length six, whatever list the settings
  held. The Add button passes on its two input values trimmed, when both are non-empty
  then, and does nothing else; so every call it makes is covered. A further command,
  even an equal one, is appended again and saved with the whole list of seven: there is
  no identity or merging.
\<close>

theorem add_custom_command:
  assumes "PLATFORM_SELECTORS_commandBar platform \<noteq> None"
    and "commands (getSettings stored) = None"
  shows "let s0 = initCommandBar platform stored initial_commandBar_state;
             s1 = addCustomCommand name command_text response s0;
             s2 = addCustomCommand name' command_text' response' s1
         in commandList s0 = DEFAULT_COMMANDS \<and> length (commandList s0) = 5
            \<and> (\<exists>bar. commandBar s0 = Some bar
                  \<and> map button_label (command_buttons bar) = map cmd_name DEFAULT_COMMANDS)
            \<and> commandList s1 = DEFAULT_COMMANDS @ [\<lparr>cmd_name = name, cmd_text = command_text\<rparr>]
            \<and> length (commandList s1) = 6
            \<and> (\<exists>bar. commandBar s1 = Some bar \<and> length (command_buttons bar) = 6
                  \<and> map button_label (command_buttons bar) = map cmd_name (commandList s1))
            \<and> sent_settings s1
                = [SAVE_SETTINGS ((getSettings response)\<lparr>commands := Some (commandList s1)\<rparr>)]
            \<and> addButton_click name_value text_value response s0
                = (if js_trim name_value \<noteq> [] \<and> js_trim text_value \<noteq> []
                   then addCustomCommand (js_trim name_value) (js_trim text_value) response s0
                   else s0)
            \<and> commandList s2
                = DEFAULT_COMMANDS @ [\<lparr>cmd_name = name, cmd_text = command_text\<rparr>,
                                      \<lparr>cmd_name = name', cmd_text = command_text'\<rparr>]
            \<and> sent_settings s2
                = sent_settings s1
                  @ [SAVE_SETTINGS ((getSettings response')\<lparr>commands := Some (commandList s2)\<rparr>)]"
proof -
  obtain selectors where sel: "PLATFORM_SELECTORS_commandBar platform = Some selectors"
    using assms(1) by auto
  define s0 where "s0 = initCommandBar platform stored initial_commandBar_state"
  define bar0 where "bar0 = \<lparr>display = ''none'', style_bottom = None, style_left = None,
                  command_buttons =
                    map (\<lambda>c. \<lparr>button_label = cmd_name c, button_command = cmd_text c,
                                button_selectors = selectors\<rparr>) DEFAULT_COMMANDS\<rparr>"
  have init: "commandList s0 = DEFAULT_COMMANDS" "sent_settings s0 = []" "commandBar s0 = Some bar0"
    unfolding s0_def bar0_def using initCommandBar_defaults [OF sel assms(2)] by simp_all
  define s1 where "s1 = addCustomCommand name command_text response s0"
  define bar1 where "bar1 = bar0\<lparr>command_buttons := command_buttons bar0
                @ [\<lparr>button_label = name, button_command = command_text,
                    button_selectors = chatgpt_selectors\<rparr>]\<rparr>"
  have first: "commandList s1 = DEFAULT_COMMANDS @ [\<lparr>cmd_name = name, cmd_text = command_text\<rparr>]"
    "commandBar s1 = Some bar1"
    "sent_settings s1 = [SAVE_SETTINGS ((getSettings response)
        \<lparr>commands := Some (DEFAULT_COMMANDS @ [\<lparr>cmd_name = name, cmd_text = command_text\<rparr>])\<rparr>)]"
    unfolding s1_def bar1_def
    using addCustomCommand_with_bar [OF init(3), of name command_text response] init(1,2) by simp_all
  define s2 where "s2 = addCustomCommand name' command_text' response' s1"
  have second: "commandList s2 = DEFAULT_COMMANDS @ [\<lparr>cmd_name = name, cmd_text = command_text\<rparr>,
                                      \<lparr>cmd_name = name', cmd_text = command_text'\<rparr>]"
    "sent_settings s2 = sent_settings s1
        @ [SAVE_SETTINGS ((getSettings response')\<lparr>commands := Some (commandList s2)\<rparr>)]"
    unfolding s2_def
    using addCustomCommand_with_bar [OF first(2), of name' command_text' response'] first(1) by simp_all
  have five: "length DEFAULT_COMMANDS = 5"
    by (simp add: DEFAULT_COMMANDS_def)
  have labels0: "map button_label (command_buttons bar0) = map cmd_name DEFAULT_COMMANDS"
    by (simp add: bar0_def comp_def)
  have labels1: "map button_label (command_buttons bar1) = map cmd_name (commandList s1)"
    and six: "length (command_buttons bar1) = 6"
    using labels0 five by (simp_all add: bar1_def first(1) bar0_def)
  show ?thesis
    unfolding Let_def s0_def [symmetric] s1_def [symmetric] s2_def [symmetric]
    using init first second five labels0 labels1 six
    by (simp add: addButton_click_cases)
qed

theorem add_custom_command_witness:
  "PLATFORM_SELECTORS_commandBar ''chatgpt'' \<noteq> None \<and> commands (getSettings None) = None
   \<and> sent_settings (addCustomCommand (js ''Foo'') (js ''Do foo: '') (Some stored_settings)
        (initCommandBar ''chatgpt'' None initial_commandBar_state))
     = [SAVE_SETTINGS (stored_settings\<lparr>commands :=
          Some (DEFAULT_COMMANDS @ [\<lparr>cmd_name = js ''Foo'', cmd_text = js ''Do foo: ''\<rparr>])\<rparr>)]
   \<and> addButton_click (js ''Foo'') (js ''Do foo: '') (Some stored_settings)
        (initCommandBar ''chatgpt'' None initial_commandBar_state)
     = addCustomCommand (js ''Foo'') (js ''Do foo:'') (Some stored_settings)
        (initCommandBar ''chatgpt'' None initial_commandBar_state)"
proof -
  have platform: "PLATFORM_SELECTORS_commandBar ''chatgpt'' \<noteq> None"
    by (simp add: PLATFORM_SELECTORS_commandBar_def)
  have stored: "commands (getSettings None) = None"
    by (simp add: getSettings_def empty_settings_def)
  have trimmed_name: "js_trim (js ''Foo'') = js ''Foo''"
    and trimmed_text: "js_trim (js ''Do foo: '') = js ''Do foo:''"
    and filled: "js ''Foo'' \<noteq> []" "js ''Do foo:'' \<noteq> []"
    by code_simp+
  show ?thesis
    using add_custom_command [OF platform stored, where name = "js ''Foo''"
        and command_text = "js ''Do foo: ''" and response = "Some stored_settings"
        and name_value = "js ''Foo''" and text_value = "js ''Do foo: ''"
        and name' = "js ''Foo''" and command_text' = "js ''Do foo: ''" and response' = None]
    by (simp add: platform trimmed_name trimmed_text filled Let_def getSettings_def
          empty_settings_def)
qed

text \<open>
  Claim C7. The claim does not hold of the code. On the mistral page above the
  platform's own input control is the \<^verbatim>\<open>textarea\<close> inside \<^verbatim>\<open>.chat-input\<close> (top 700, left
  24), but \<^verbatim>\<open>toggleCommandBar\<close> queries the selector of the chatgpt platform and places the
  bar from the search box (top 10, left 500): with a window height of 800 the bar gets
  \<^verbatim>\<open>bottom\<close> 800 and \<^verbatim>\<open>left\<close> 500, where the platform's input control would give 110 and
  24.
\<close>

theorem toggleCommandBar_ignores_platform:
  "querySelector mistral_page (inputArea mistral_selectors)
     = Some (Element ''TEXTAREA'' [] [] [] 700 24 [])
   \<and> PLATFORM_SELECTORS_commandBar ''mistral'' = Some mistral_selectors
   \<and> map_option (\<lambda>bar. (display bar, style_bottom bar, style_left bar))
        (commandBar (toggleCommandBar mistral_page 800
           (initCommandBar ''mistral'' None initial_commandBar_state)))
     = Some (''block'', Some 800, Some 500)"
  by code_simp

section \<open>Properties of the theme manager\<close>

lemma theme_classes_available: "theme_classes = map theme_class AVAILABLE_THEMES"
  by (simp add: theme_classes_def theme_class_def AVAILABLE_THEMES_def)

lemma freshly_loaded_managed: "freshly_loaded s \<Longrightarrow> managed (head_children s) s"
  by (simp add: freshly_loaded_def managed_def)

lemma filter_other_ids:
  "list_all (\<lambda>c. node_id c \<noteq> i) xs \<Longrightarrow> filter (\<lambda>c. node_id c \<noteq> i) xs = xs"
  by (induction xs) auto

lemma bounded_ids_fresh:
  "list_all (\<lambda>c. node_id c < n) xs \<Longrightarrow> list_all (\<lambda>c. node_id c \<noteq> n) xs"
  by (induction xs) auto

lemma bounded_ids_Suc:
  "list_all (\<lambda>c. node_id c < n) xs \<Longrightarrow> list_all (\<lambda>c. node_id c < Suc n) xs"
  by (induction xs) auto

lemma replace_themeStylesheet_managed:
  assumes "managed page_head s"
  shows "managed page_head (replace_themeStylesheet getURL themeId s)"
proof -
  let ?remaining = "case themeStylesheet s of
                         None \<Rightarrow> head_children s
                       | Some old \<Rightarrow> filter (\<lambda>c. node_id c \<noteq> node_id old) (head_children s)"
  have bounded: "list_all (\<lambda>c. node_id c < next_node_id s) page_head"
    using assms by (auto simp: managed_def split: option.splits)
  have "?remaining = page_head"
    using assms by (auto simp: managed_def filter_other_ids split: option.splits)
  then have "head_children (replace_themeStylesheet getURL themeId s)
      = page_head @ [\<lparr>node_id = next_node_id s, rel = ''stylesheet'',
                  href = getURL (''themes/'' @ themeId @ ''.css'')\<rparr>]"
    by (simp add: replace_themeStylesheet_def Let_def)
  moreover have "themeStylesheet (replace_themeStylesheet getURL themeId s)
      = Some \<lparr>node_id = next_node_id s, rel = ''stylesheet'',
                  href = getURL (''themes/'' @ themeId @ ''.css'')\<rparr>"
    by (simp add: replace_themeStylesheet_def Let_def)
  moreover have "next_node_id (replace_themeStylesheet getURL themeId s) = Suc (next_node_id s)"
    by (simp add: replace_themeStylesheet_def Let_def)
  ultimately show ?thesis
    using bounded by (simp add: managed_def bounded_ids_fresh bounded_ids_Suc)
qed

lemma applyTheme_head_fields:
  "head_children (applyTheme getURL platform themeId s)
     = head_children (replace_themeStylesheet getURL themeId (s\<lparr>currentTheme := themeId\<rparr>))
   \<and> themeStylesheet (applyTheme getURL platform themeId s)
     = themeStylesheet (replace_themeStylesheet getURL themeId (s\<lparr>currentTheme := themeId\<rparr>))
   \<and> next_node_id (applyTheme getURL platform themeId s)
     = next_node_id (replace_themeStylesheet getURL themeId (s\<lparr>currentTheme := themeId\<rparr>))
   \<and> currentTheme (applyTheme getURL platform themeId s) = themeId"
  by (simp add: applyTheme_def Let_def update_themeSelector_def replace_themeStylesheet_def
        split: sum.splits option.splits)

lemma managed_cong:
  "head_children s' = head_children s \<Longrightarrow> themeStylesheet s' = themeStylesheet s \<Longrightarrow>
   next_node_id s' = next_node_id s \<Longrightarrow> managed h s' = managed h s"
  by (auto simp: managed_def split: option.splits)

lemma applyTheme_managed:
  assumes "managed page_head s"
  shows "managed page_head (applyTheme getURL platform themeId s)"
proof -
  have "managed page_head (s\<lparr>currentTheme := themeId\<rparr>)"
    using assms by (auto simp: managed_def split: option.splits)
  then have "managed page_head (replace_themeStylesheet getURL themeId (s\<lparr>currentTheme := themeId\<rparr>))"
    by (rule replace_themeStylesheet_managed)
  moreover have "managed page_head (applyTheme getURL platform themeId s)
      = managed page_head (replace_themeStylesheet getURL themeId (s\<lparr>currentTheme := themeId\<rparr>))"
    by (rule managed_cong) (simp_all add: applyTheme_head_fields)
  ultimately show ?thesis
    by simp
qed

lemma applyTheme_link:
  "themeStylesheet (applyTheme getURL platform themeId s)
     = Some \<lparr>node_id = next_node_id s, rel = ''stylesheet'',
              href = getURL (''themes/'' @ themeId @ ''.css'')\<rparr>"
  using applyTheme_head_fields [of getURL platform themeId s]
  by (simp add: replace_themeStylesheet_def Let_def)

lemma available_token:
  "themeId \<in> set AVAILABLE_THEMES \<Longrightarrow>
     classList_add classes (theme_class themeId)
       = Inr (if theme_class themeId \<in> set classes then classes
              else classes @ [theme_class themeId])"
  by (auto simp: AVAILABLE_THEMES_def classList_add_def token_whitespace_def theme_class_def)

lemma markers_removed:
  "filter (\<lambda>c. c \<in> set theme_classes) (classList_remove classes theme_classes) = []"
  by (induction classes) (auto simp: classList_remove_def)

lemma markers_prism:
  "filter (\<lambda>c. c \<in> set theme_classes) (updateSyntaxHighlighterTheme themeId classes)
   = filter (\<lambda>c. c \<in> set theme_classes) classes"
proof -
  have pr: "filter (\<lambda>c. c \<in> set theme_classes)
      (classList_remove classes [''prism-light'', ''prism-dark'', ''prism-high-contrast''])
     = filter (\<lambda>c. c \<in> set theme_classes) classes"
    by (induction classes) (auto simp: classList_remove_def theme_classes_def)
  show ?thesis
    by (simp add: updateSyntaxHighlighterTheme_def Let_def pr) (simp add: theme_classes_def)
qed

lemma applyTheme_markers:
  assumes "themeId \<in> set AVAILABLE_THEMES"
  shows "theme_marker_classes (applyTheme getURL platform themeId s) = [theme_class themeId]"
proof -
  let ?s1 = "replace_themeStylesheet getURL themeId (s\<lparr>currentTheme := themeId\<rparr>)"
  let ?removed = "classList_remove (body_classList ?s1) theme_classes"
  have notin: "theme_class themeId \<notin> set ?removed"
    using assms by (auto simp: classList_remove_def theme_classes_available)
  have "body_classList (applyTheme getURL platform themeId s)
      = updateSyntaxHighlighterTheme themeId (?removed @ [theme_class themeId])"
    using notin
    by (simp add: applyTheme_def Let_def available_token [OF assms] update_themeSelector_def
          split: option.splits)
  moreover have "theme_class themeId \<in> set theme_classes"
    using assms by (simp add: theme_classes_available)
  ultimately show ?thesis
    by (simp add: theme_marker_classes_def theme_classes_available [symmetric] markers_prism
          markers_removed)
qed

lemma applyThemes_managed:
  "managed page_head s \<Longrightarrow> managed page_head (applyThemes getURL platform themeIds s)"
  unfolding applyThemes_def
  by (induction themeIds arbitrary: s) (simp_all add: applyTheme_managed)

text \<open>
  Claim C5. Start from a freshly loaded content script (no theme stylesheet yet, the
  page's own head and body arbitrary) and call \<^verbatim>\<open>applyTheme\<close> once for each theme of a
  non-empty list of available themes, for instance X then Y. Afterwards the body
  carries exactly one of the theme marker classes, the one of the last theme applied;
  the current theme is the last one; and the head is the page's own head followed by
  exactly one link element of the theme manager, the stylesheet link of the last theme,
  to which the module variable refers: each earlier link was removed before the next
  was added.
\<close>

theorem theme_exclusivity:
  assumes "freshly_loaded s" and "themeIds \<noteq> []" and "set themeIds \<subseteq> set AVAILABLE_THEMES"
  shows "let s' = applyThemes getURL platform themeIds s
         in theme_marker_classes s' = [theme_class (last themeIds)]
            \<and> currentTheme s' = last themeIds
            \<and> (\<exists>link. head_children s' = head_children s @ [link]
                  \<and> themeStylesheet s' = Some link
                  \<and> rel link = ''stylesheet''
                  \<and> href link = getURL (''themes/'' @ last themeIds @ ''.css'')
                  \<and> list_all (\<lambda>c. node_id c \<noteq> node_id link) (head_children s))"
proof -
  obtain front themeId where split: "themeIds = front @ [themeId]"
    using assms(2) by (cases themeIds rule: rev_cases) simp_all
  define before where "before = applyThemes getURL platform front s"
  have "managed (head_children s) before"
    unfolding before_def
    by (rule applyThemes_managed [OF freshly_loaded_managed [OF assms(1)]])
  then have m: "managed (head_children s) (applyTheme getURL platform themeId before)"
    by (rule applyTheme_managed)
  have final: "applyThemes getURL platform themeIds s = applyTheme getURL platform themeId before"
    by (simp add: split before_def applyThemes_def)
  have av: "themeId \<in> set AVAILABLE_THEMES"
    using assms(3) split by simp
  have lst: "last themeIds = themeId"
    by (simp add: split)
  have link: "themeStylesheet (applyTheme getURL platform themeId before)
      = Some \<lparr>node_id = next_node_id before, rel = ''stylesheet'',
              href = getURL (''themes/'' @ themeId @ ''.css'')\<rparr>"
    by (rule applyTheme_link)
  have hd: "head_children (applyTheme getURL platform themeId before)
      = head_children s @ [\<lparr>node_id = next_node_id before, rel = ''stylesheet'',
              href = getURL (''themes/'' @ themeId @ ''.css'')\<rparr>]"
    and fresh: "list_all (\<lambda>c. node_id c \<noteq> next_node_id before) (head_children s)"
    using m by (simp_all add: managed_def link)
  have cur: "currentTheme (applyTheme getURL platform themeId before) = themeId"
    using applyTheme_head_fields [of getURL platform themeId before] by simp
  show ?thesis
    unfolding Let_def final lst
  proof (intro conjI)
    show "theme_marker_classes (applyTheme getURL platform themeId before) = [theme_class themeId]"
      by (rule applyTheme_markers [OF av])
    show "currentTheme (applyTheme getURL platform themeId before) = themeId"
      by (rule cur)
    show "\<exists>link. head_children (applyTheme getURL platform themeId before) = head_children s @ [link]
            \<and> themeStylesheet (applyTheme getURL platform themeId before) = Some link
            \<and> rel link = ''stylesheet''
            \<and> href link = getURL (''themes/'' @ themeId @ ''.css'')
            \<and> list_all (\<lambda>c. node_id c \<noteq> node_id link) (head_children s)"
      by (rule exI [of _ "\<lparr>node_id = next_node_id before, rel = ''stylesheet'',
              href = getURL (''themes/'' @ themeId @ ''.css'')\<rparr>"])
         (simp add: link hd fresh)
  qed
qed

theorem theme_exclusivity_witness:
  "freshly_loaded loaded_page
   \<and> set [''dark'', ''high-contrast''] \<subseteq> set AVAILABLE_THEMES
   \<and> theme_marker_classes
         (applyThemes extension_url ''chatgpt'' [''dark'', ''high-contrast''] loaded_page)
       = [''theme-high-contrast'']
   \<and> head_children
         (applyThemes extension_url ''chatgpt'' [''dark'', ''high-contrast''] loaded_page)
       = [\<lparr>node_id = 0, rel = ''icon'', href = ''favicon.ico''\<rparr>,
          \<lparr>node_id = 2, rel = ''stylesheet'',
           href = ''chrome-extension://id/themes/high-contrast.css''\<rparr>]"
proof -
  have fresh: "freshly_loaded loaded_page"
    by (simp add: freshly_loaded_def loaded_page_def)
  have available: "set [''dark'', ''high-contrast''] \<subseteq> set AVAILABLE_THEMES"
    by (simp add: AVAILABLE_THEMES_def)
  have computed: "head_children
         (applyThemes extension_url ''chatgpt'' [''dark'', ''high-contrast''] loaded_page)
       = [\<lparr>node_id = 0, rel = ''icon'', href = ''favicon.ico''\<rparr>,
          \<lparr>node_id = 2, rel = ''stylesheet'',
           href = ''chrome-extension://id/themes/high-contrast.css''\<rparr>]"
    by code_simp
  show ?thesis
    using theme_exclusivity [OF fresh _ available, of extension_url "''chatgpt''"]
    by (simp add: fresh computed theme_class_def Let_def AVAILABLE_THEMES_def)
qed

text \<open>
  A theme outside the available ones is not covered: its class is not among those
  \<^verbatim>\<open>applyTheme\<close> removes, so it stays on the body when the next theme is applied.
\<close>

lemma unlisted_theme_class_stays:
  "body_classList (applyThemes extension_url ''chatgpt'' [''solarized'', ''dark''] loaded_page)
     = [''app'', ''theme-solarized'', ''theme-dark'', ''prism-dark'']"
  by code_simp

section \<open>Properties of the syntax highlighter\<close>

lemma skipped_noop: "skipped w d i \<Longrightarrow> highlight_codeBlock w i d = Inr (d, 0)"
  by (auto simp: skipped_def highlight_codeBlock_def Let_def split: option.splits sum.splits)

lemma step_cases:
  "(\<exists>exn. highlight_codeBlock w i d = Inl exn)
   \<or> highlight_codeBlock w i d = Inr (d, 0)
   \<or> (\<exists>html language. js_trim (textContent (code_elements d ! i)) \<noteq> []
        \<and> highlight_codeBlock w i d
          = Inr (add_decorations language (textContent (code_elements d ! i))
                   (parentElement (code_elements d ! i)) (set_highlighted w i html d), 1))"
  by (auto simp: highlight_codeBlock_def Let_def split: option.splits sum.splits)

lemma append_to_parent_fields:
  "code_elements (append_to_parent k a d) = code_elements d
   \<and> parent_tagName (parents (append_to_parent k a d) j) = parent_tagName (parents d j)
   \<and> parent_classList (parents (append_to_parent k a d) j) = parent_classList (parents d j)"
  by (simp add: append_to_parent_def)

lemma add_decorations_fields:
  "code_elements (add_decorations language codeContent r d) = code_elements d
   \<and> parent_tagName (parents (add_decorations language codeContent r d) j) = parent_tagName (parents d j)
   \<and> parent_classList (parents (add_decorations language codeContent r d) j) = parent_classList (parents d j)"
  by (simp add: add_decorations_def Let_def append_to_parent_fields
        split: option.splits parent_ref.splits)

lemma detach_content: "content_of (detach k outer c) = content_of c"
  by (simp add: detach_def content_of_def)

lemma set_highlighted_length:
  "length (code_elements (set_highlighted w k html d)) = length (code_elements d)"
  by (simp add: set_highlighted_def)

lemma set_highlighted_parents: "parents (set_highlighted w k html d) = parents d"
  by (simp add: set_highlighted_def)

lemma set_highlighted_content_other:
  "i \<noteq> k \<Longrightarrow> i < length (code_elements d) \<Longrightarrow>
     content_of (code_elements (set_highlighted w k html d) ! i) = content_of (code_elements d ! i)"
  by (simp add: set_highlighted_def detach_content)

lemma step_length:
  "highlight_codeBlock w k d = Inr (d', n) \<Longrightarrow>
     length (code_elements d') = length (code_elements d)"
  using step_cases [of w k d]
  by (auto simp: add_decorations_fields set_highlighted_length)

lemma step_content_other:
  "highlight_codeBlock w k d = Inr (d', n) \<Longrightarrow> i \<noteq> k \<Longrightarrow> i < length (code_elements d) \<Longrightarrow>
     content_of (code_elements d' ! i) = content_of (code_elements d ! i)"
  using step_cases [of w k d]
  by (auto simp: add_decorations_fields set_highlighted_content_other)

lemma blank_step:
  assumes "js_trim (textContent (code_elements d ! i)) = []"
  shows "(\<exists>exn. highlight_codeBlock w i d = Inl exn) \<or> highlight_codeBlock w i d = Inr (d, 0)"
  using assms step_cases [of w i d] by auto

lemma blank_step_parent:
  assumes "js_trim (textContent (code_elements d ! i)) = []"
    and "parentElement (code_elements d ! i) \<noteq> None"
  shows "highlight_codeBlock w i d = Inr (d, 0)"
  using assms
  by (auto simp: highlight_codeBlock_def determine_language_def Let_def
        split: option.splits sum.splits parent_ref.splits)

lemma blank_loop_content:
  assumes "js_trim (textContent (code_elements d ! i)) = []" and "i < length (code_elements d)"
  shows "content_of (code_elements (fst (highlight_loop w ks (d, n))) ! i)
           = content_of (code_elements d ! i)"
  using assms
proof (induction ks arbitrary: d n)
  case Nil
  show ?case by simp
next
  case (Cons k ks)
  show ?case
  proof (cases "highlight_codeBlock w k d")
    case (Inl exn)
    then show ?thesis by simp
  next
    case (Inr r)
    obtain d' m where r: "r = (d', m)" by (cases r)
    have step: "highlight_codeBlock w k d = Inr (d', m)"
      using Inr r by simp
    have same: "content_of (code_elements d' ! i) = content_of (code_elements d ! i)"
    proof (cases "i = k")
      case True
      then have "d' = d"
        using blank_step [OF Cons.prems(1), of w] step by auto
      then show ?thesis by simp
    next
      case False
      then show ?thesis
        using step_content_other [OF step _ Cons.prems(2)] by simp
    qed
    have len: "i < length (code_elements d')"
      using step_length [OF step] Cons.prems(2) by simp
    have blank: "js_trim (textContent (code_elements d' ! i)) = []"
      using same Cons.prems(1) by (simp add: content_of_def)
    show ?thesis
      using Cons.IH [OF blank len, of "n + m"] same step by simp
  qed
qed

lemma set_highlighted_nth_other:
  "j \<noteq> k \<Longrightarrow> j < length (code_elements d) \<Longrightarrow>
     code_elements (set_highlighted w k html d) ! j
       = detach k (enclosing_code (code_elements d ! k)) (code_elements d ! j)"
  by (simp add: set_highlighted_def)

lemma step_keeps_unnested:
  assumes "highlight_codeBlock w k d = Inr (d', n)"
    and "enclosing_code (code_elements d ! i) = []" and "i < length (code_elements d)"
    and "js_trim (textContent (code_elements d ! i)) = []"
  shows "code_elements d' ! i = code_elements d ! i"
proof (cases "k = i")
  case True
  then have "d' = d"
    using blank_step [OF assms(4), of w] assms(1) by auto
  then show ?thesis by simp
next
  case False
  consider "d' = d"
    | html language where "d' = add_decorations language (textContent (code_elements d ! k))
                   (parentElement (code_elements d ! k)) (set_highlighted w k html d)"
    using step_cases [of w k d] assms(1) by auto
  then show ?thesis
  proof cases
    case 1
    then show ?thesis by simp
  next
    case 2
    then show ?thesis
      using False assms(2,3)
      by (simp add: add_decorations_fields set_highlighted_nth_other detach_def)
  qed
qed

lemma loop_keeps_unnested:
  assumes "enclosing_code (code_elements d ! i) = []" and "i < length (code_elements d)"
    and "js_trim (textContent (code_elements d ! i)) = []"
  shows "code_elements (fst (highlight_loop w ks (d, n))) ! i = code_elements d ! i
     \<and> length (code_elements (fst (highlight_loop w ks (d, n)))) = length (code_elements d)"
  using assms
proof (induction ks arbitrary: d n)
  case Nil
  show ?case by simp
next
  case (Cons k ks)
  show ?case
  proof (cases "highlight_codeBlock w k d")
    case (Inl exn)
    then show ?thesis by simp
  next
    case (Inr r)
    obtain d' m where step: "highlight_codeBlock w k d = Inr (d', m)"
      using Inr by (cases r) simp
    have same: "code_elements d' ! i = code_elements d ! i"
      using step_keeps_unnested [OF step Cons.prems] .
    have len: "length (code_elements d') = length (code_elements d)"
      using step_length [OF step] .
    show ?thesis
      using Cons.IH [of d' "n + m"] Cons.prems same len step by simp
  qed
qed

lemma loop_length:
  "length (code_elements (fst (highlight_loop w ks (d, n)))) = length (code_elements d)"
proof (induction ks arbitrary: d n)
  case Nil
  show ?case by simp
next
  case (Cons k ks)
  show ?case
  proof (cases "highlight_codeBlock w k d")
    case (Inl exn)
    then show ?thesis by simp
  next
    case (Inr r)
    obtain d' m where step: "highlight_codeBlock w k d = Inr (d', m)"
      using Inr by (cases r) simp
    show ?thesis
      using Cons.IH [of d' "n + m"] step_length [OF step] step by simp
  qed
qed

lemma pass_length:
  "length (code_elements (fst (initSyntaxHighlighter w platform reinit d)))
     = length (code_elements d)"
  by (simp add: initSyntaxHighlighter_def loop_length)

lemma pass_content:
  assumes "js_trim (textContent (code_elements d ! i)) = []" and "i < length (code_elements d)"
  shows "content_of (code_elements (fst (initSyntaxHighlighter w platform reinit d)) ! i)
           = content_of (code_elements d ! i)"
  using blank_loop_content [OF assms, of w "codeBlocks platform d" 0]
  by (simp add: initSyntaxHighlighter_def)

lemma pass_keeps_unnested:
  assumes "enclosing_code (code_elements d ! i) = []" and "i < length (code_elements d)"
    and "js_trim (textContent (code_elements d ! i)) = []"
  shows "code_elements (fst (initSyntaxHighlighter w platform reinit d)) ! i = code_elements d ! i"
  using loop_keeps_unnested [OF assms, of w "codeBlocks platform d" 0]
  by (simp add: initSyntaxHighlighter_def)

lemma passes_content:
  assumes "js_trim (textContent (code_elements d ! i)) = []" and "i < length (code_elements d)"
  shows "content_of (code_elements (highlighter_passes w platform flags d) ! i)
           = content_of (code_elements d ! i)"
  using assms
proof (induction flags arbitrary: d)
  case Nil
  show ?case by (simp add: highlighter_passes_def)
next
  case (Cons reinit flags)
  let ?d = "fst (initSyntaxHighlighter w platform reinit d)"
  have same: "content_of (code_elements ?d ! i) = content_of (code_elements d ! i)"
    using pass_content [OF Cons.prems] .
  then have blank: "js_trim (textContent (code_elements ?d ! i)) = []"
    using Cons.prems(1) by (simp add: content_of_def)
  have len: "i < length (code_elements ?d)"
    using Cons.prems(2) by (simp add: pass_length)
  have "highlighter_passes w platform (reinit # flags) d = highlighter_passes w platform flags ?d"
    by (simp add: highlighter_passes_def)
  then show ?case
    using Cons.IH [OF blank len] same by simp
qed

lemma passes_keep_unnested:
  assumes "enclosing_code (code_elements d ! i) = []" and "i < length (code_elements d)"
    and "js_trim (textContent (code_elements d ! i)) = []"
  shows "code_elements (highlighter_passes w platform flags d) ! i = code_elements d ! i
     \<and> length (code_elements (highlighter_passes w platform flags d)) = length (code_elements d)"
  using assms
proof (induction flags arbitrary: d)
  case Nil
  show ?case by (simp add: highlighter_passes_def)
next
  case (Cons reinit flags)
  let ?d = "fst (initSyntaxHighlighter w platform reinit d)"
  have same: "code_elements ?d ! i = code_elements d ! i"
    using pass_keeps_unnested [OF Cons.prems] .
  have len: "length (code_elements ?d) = length (code_elements d)"
    by (rule pass_length)
  have "highlighter_passes w platform (reinit # flags) d = highlighter_passes w platform flags ?d"
    by (simp add: highlighter_passes_def)
  then show ?case
    using Cons.IH [of ?d] Cons.prems same len by simp
qed

lemma codeBlocks_member:
  "i \<in> set (codeBlocks platform d) \<longleftrightarrow>
     i < length (code_elements d) \<and> in_document (code_elements d ! i)
     \<and> codeBlockSelector_matches platform (code_elements d ! i) = Some True"
  by (auto simp: codeBlocks_def)

text \<open>
  Claim C9, as amended. Let the text of a code element be empty or white space only.
  Processing it never changes the page and never counts it as highlighted: whenever
  the callback returns, it returns the page as it was, and it does return when the
  element has a parent; so the marker is not attached, \<^verbatim>\<open>innerHTML\<close> is not assigned and
  nothing is appended to the parent. After any number of passes its class list, its
  text and what was assigned to its \<^verbatim>\<open>innerHTML\<close> are what they were. If moreover the
  element does not lie inside another code element, then after any number of passes it
  is the very same element in the same place: it is selected by the next pass exactly
  if it was selected before, and processing it again changes nothing.
\<close>

theorem blank_codeBlock_untouched:
  assumes "i < length (code_elements d)"
    and "js_trim (textContent (code_elements d ! i)) = []"
  shows "(\<forall>r. highlight_codeBlock w i d = Inr r \<longrightarrow> r = (d, 0))
     \<and> (parentElement (code_elements d ! i) \<noteq> None \<longrightarrow> highlight_codeBlock w i d = Inr (d, 0))
     \<and> (\<forall>flags. content_of (code_elements (highlighter_passes w platform flags d) ! i)
                  = content_of (code_elements d ! i))
     \<and> (enclosing_code (code_elements d ! i) = [] \<longrightarrow>
          (\<forall>flags. let d' = highlighter_passes w platform flags d
                    in code_elements d' ! i = code_elements d ! i
                       \<and> (i \<in> set (codeBlocks platform d') \<longleftrightarrow> i \<in> set (codeBlocks platform d))
                       \<and> (\<forall>r. highlight_codeBlock w i d' = Inr r \<longrightarrow> r = (d', 0))
                       \<and> (parentElement (code_elements d ! i) \<noteq> None
                            \<longrightarrow> highlight_codeBlock w i d' = Inr (d', 0))))"
proof (intro conjI allI impI)
  show "\<And>r. highlight_codeBlock w i d = Inr r \<Longrightarrow> r = (d, 0)"
    using blank_step [OF assms(2), of w] by auto
  show "parentElement (code_elements d ! i) \<noteq> None \<Longrightarrow> highlight_codeBlock w i d = Inr (d, 0)"
    using blank_step_parent [OF assms(2), of w] by blast
  show "\<And>flags. content_of (code_elements (highlighter_passes w platform flags d) ! i)
                  = content_of (code_elements d ! i)"
    using passes_content [OF assms(2) assms(1)] .
next
  fix flags
  assume unnested: "enclosing_code (code_elements d ! i) = []"
  define d' where "d' = highlighter_passes w platform flags d"
  have same: "code_elements d' ! i = code_elements d ! i"
    and len: "length (code_elements d') = length (code_elements d)"
    unfolding d'_def using passes_keep_unnested [OF unnested assms, of w platform flags] by simp_all
  have blank: "js_trim (textContent (code_elements d' ! i)) = []"
    using same assms(2) by simp
  have "(i \<in> set (codeBlocks platform d') \<longleftrightarrow> i \<in> set (codeBlocks platform d))"
    by (simp add: codeBlocks_member same len)
  moreover have "\<forall>r. highlight_codeBlock w i d' = Inr r \<longrightarrow> r = (d', 0)"
    using blank_step [OF blank, of w] by auto
  moreover have "parentElement (code_elements d ! i) \<noteq> None
                   \<longrightarrow> highlight_codeBlock w i d' = Inr (d', 0)"
    using blank_step_parent [OF blank, of w] same by auto
  ultimately show "let d' = highlighter_passes w platform flags d
                    in code_elements d' ! i = code_elements d ! i
                       \<and> (i \<in> set (codeBlocks platform d') \<longleftrightarrow> i \<in> set (codeBlocks platform d))
                       \<and> (\<forall>r. highlight_codeBlock w i d' = Inr r \<longrightarrow> r = (d', 0))
                       \<and> (parentElement (code_elements d ! i) \<noteq> None
                            \<longrightarrow> highlight_codeBlock w i d' = Inr (d', 0))"
    using same by (simp add: d'_def Let_def)
qed

theorem blank_codeBlock_untouched_witness:
  "0 < length (code_elements plain_page)
   \<and> js_trim (textContent (code_elements plain_page ! 0)) = []
   \<and> enclosing_code (code_elements plain_page ! 0) = []
   \<and> highlight_codeBlock example_window 0 plain_page = Inr (plain_page, 0)
   \<and> code_elements (highlighter_passes example_window ''chatgpt'' [False, True] plain_page) ! 0
       = code_elements plain_page ! 0
   \<and> 0 \<in> set (codeBlocks ''chatgpt''
                 (highlighter_passes example_window ''chatgpt'' [False, True] plain_page))"
proof -
  have range: "0 < length (code_elements plain_page)"
    by (simp add: plain_page_def)
  have blank: "js_trim (textContent (code_elements plain_page ! 0)) = []"
    by (simp add: plain_page_def js_trim_def js_whitespace_def)
  have parent: "parentElement (code_elements plain_page ! 0) \<noteq> None"
    and unnested: "enclosing_code (code_elements plain_page ! 0) = []"
    and nonempty: "code_elements plain_page \<noteq> []"
    by (simp_all add: plain_page_def)
  have selected: "0 \<in> set (codeBlocks ''chatgpt'' plain_page)"
    by (simp add: codeBlocks_member plain_page_def codeBlockSelector_matches_def)
  show ?thesis
    using blank_codeBlock_untouched [OF range blank, of example_window "''chatgpt''"]
    by (simp add: nonempty blank parent unnested selected Let_def)
qed

text \<open>
  The claim as stated fails for a blank code element that lies inside another one.
  On the page \<^verbatim>\<open><p><code>a<code class="language-js"> </code></code></p><pre>...</pre>\<close>
  all three code elements are selected. One pass rewrites the outer element and so
  takes the blank inner one out of the document and out of its parent; the next pass
  selects the outer element and the code block only, and does not look at the blank
  element again.
\<close>

theorem blank_codeBlock_counterexample:
  "js_trim (textContent (code_elements nested_blank_page ! 1)) = []
   \<and> codeBlocks ''chatgpt'' nested_blank_page = [0, 1, 2]
   \<and> snd (initSyntaxHighlighter example_window ''chatgpt'' False nested_blank_page) = 2
   \<and> map in_document
        (code_elements (fst (initSyntaxHighlighter example_window ''chatgpt'' False nested_blank_page)))
      = [True, False, True]
   \<and> parentElement
        (code_elements (fst (initSyntaxHighlighter example_window ''chatgpt'' False nested_blank_page)) ! 1)
      = None
   \<and> codeBlocks ''chatgpt''
        (fst (initSyntaxHighlighter example_window ''chatgpt'' False nested_blank_page)) = [0, 2]"
  by code_simp

text \<open>
  On a page without nesting the highlighter is idempotent: every callback returns, a
  pass leaves every selected code element either marked or in a state in which it is
  passed over again, and a second pass returns the page of the first with a count of
  zero.
\<close>

lemma flat_detach: "enclosing_code c = [] \<Longrightarrow> detach k outer c = c"
  by (simp add: detach_def)

lemma flat_map_detach:
  "list_all (\<lambda>c. enclosing_code c = []) cs \<Longrightarrow> map (detach k outer) cs = cs"
  by (induction cs) (simp_all add: flat_detach)

lemma list_all_update:
  "list_all P xs \<Longrightarrow> (i < length xs \<Longrightarrow> P v) \<Longrightarrow> list_all P (xs[i := v])"
  by (induction xs arbitrary: i) (auto split: nat.splits)

lemma list_all_nth: "list_all P xs \<Longrightarrow> i < length xs \<Longrightarrow> P (xs ! i)"
  by (simp add: list_all_length)

lemma flat_nth: "flat d \<Longrightarrow> i < length (code_elements d) \<Longrightarrow> flat_element (code_elements d ! i)"
  by (simp add: flat_def list_all_length)

lemma flat_set_highlighted:
  assumes "flat d"
  shows "code_elements (set_highlighted w i html d)
           = (code_elements d)
               [i := (code_elements d ! i)
                       \<lparr>innerHTML_assigned := Some html, textContent := text_of_html w html,
                        code_classList := code_classList (code_elements d ! i) @ [''prism-highlighted'']\<rparr>]"
proof -
  let ?v = "(code_elements d ! i)
                       \<lparr>innerHTML_assigned := Some html, textContent := text_of_html w html,
                        code_classList := code_classList (code_elements d ! i) @ [''prism-highlighted'']\<rparr>"
  have "list_all (\<lambda>c. enclosing_code c = []) (code_elements d)"
    using assms by (simp add: flat_def flat_element_def list_all_iff)
  moreover have "i < length (code_elements d) \<Longrightarrow> enclosing_code ?v = []"
    using flat_nth [OF assms, of i] by (simp add: flat_element_def)
  ultimately have "list_all (\<lambda>c. enclosing_code c = []) ((code_elements d)[i := ?v])"
    by (rule list_all_update)
  then show ?thesis
    by (simp add: set_highlighted_def flat_map_detach)
qed

lemma flat_step:
  assumes "flat d" and "highlight_codeBlock w i d = Inr (d', n)"
  shows "flat d'"
proof -
  consider "d' = d"
    | html language where "d' = add_decorations language (textContent (code_elements d ! i))
                   (parentElement (code_elements d ! i)) (set_highlighted w i html d)"
    using step_cases [of w i d] assms(2) by auto
  then show ?thesis
  proof cases
    case 1
    then show ?thesis using assms(1) by simp
  next
    case 2
    have "list_all flat_element (code_elements d)"
      using assms(1) by (simp add: flat_def)
    moreover have "i < length (code_elements d) \<Longrightarrow>
        flat_element ((code_elements d ! i)
                       \<lparr>innerHTML_assigned := Some html, textContent := text_of_html w html,
                        code_classList := code_classList (code_elements d ! i) @ [''prism-highlighted'']\<rparr>)"
      using flat_nth [OF assms(1), of i] by (simp add: flat_element_def)
    ultimately have "list_all flat_element (code_elements (set_highlighted w i html d))"
      unfolding flat_set_highlighted [OF assms(1)]
      by (rule list_all_update)
    then show ?thesis
      by (simp add: 2 flat_def add_decorations_fields)
  qed
qed

lemma flat_language:
  assumes "flat d" and "i < length (code_elements d)"
  shows "\<exists>language. determine_language d (code_elements d ! i) = Inr language"
proof -
  have "flat_element (code_elements d ! i)"
    using assms by (rule flat_nth)
  then show ?thesis
    by (auto simp: flat_element_def determine_language_def
          split: option.splits parent_ref.splits)
qed

lemma flat_step_total:
  assumes "flat d" and "i < length (code_elements d)"
  shows "\<exists>r. highlight_codeBlock w i d = Inr r"
  using flat_language [OF assms]
  by (auto simp: highlight_codeBlock_def Let_def split: option.splits sum.splits)

lemma determine_language_cong:
  "code_classList c' = code_classList c \<Longrightarrow> parentElement c' = parentElement c \<Longrightarrow>
   (\<And>k. parent_tagName (parents d' k) = parent_tagName (parents d k)) \<Longrightarrow>
   (\<And>k. parent_classList (parents d' k) = parent_classList (parents d k)) \<Longrightarrow>
   determine_language d' c' = determine_language d c"
  by (simp add: determine_language_def split: option.splits parent_ref.splits)

lemma step_parents:
  "highlight_codeBlock w i d = Inr (d', n) \<Longrightarrow>
     parent_tagName (parents d' k) = parent_tagName (parents d k)
     \<and> parent_classList (parents d' k) = parent_classList (parents d k)"
  using step_cases [of w i d]
  by (auto simp: add_decorations_fields set_highlighted_parents)

lemma flat_step_other:
  "flat d \<Longrightarrow> highlight_codeBlock w i d = Inr (d', n) \<Longrightarrow> j \<noteq> i \<Longrightarrow>
     code_elements d' ! j = code_elements d ! j"
  using step_cases [of w i d]
  by (auto simp: add_decorations_fields flat_set_highlighted)

lemma map_update_same:
  "f v = f (xs ! i) \<Longrightarrow> map f (xs[i := v]) = map f xs"
  by (induction xs arbitrary: i) (auto split: nat.splits)

lemma flat_step_selection:
  "flat d \<Longrightarrow> highlight_codeBlock w i d = Inr (d', n) \<Longrightarrow>
     map selection_of (code_elements d') = map selection_of (code_elements d)"
  using step_cases [of w i d]
  by (auto simp: add_decorations_fields flat_set_highlighted map_update_same selection_of_def)

lemma skipped_cong:
  assumes "code_elements d' ! j = code_elements d ! j"
    and "\<And>k. parent_tagName (parents d' k) = parent_tagName (parents d k)"
    and "\<And>k. parent_classList (parents d' k) = parent_classList (parents d k)"
  shows "skipped w d' j = skipped w d j"
proof -
  have "determine_language d' (code_elements d' ! j) = determine_language d (code_elements d ! j)"
    using assms by (intro determine_language_cong) simp_all
  then show ?thesis
    using assms(1) by (simp add: skipped_def Let_def)
qed

lemma skipped_preserved:
  assumes "flat d" and "highlight_codeBlock w i d = Inr (d', n)" and "skipped w d j"
  shows "skipped w d' j"
proof (cases "i = j")
  case True
  then show ?thesis using assms skipped_noop [of w d j] by simp
next
  case False
  then have "skipped w d' j = skipped w d j"
    using flat_step_other [OF assms(1,2), of j] step_parents [OF assms(2)]
    by (intro skipped_cong) simp_all
  then show ?thesis using assms(3) by simp
qed

lemma step_establishes:
  assumes "flat d" and "i < length (code_elements d)"
    and "highlight_codeBlock w i d = Inr (d', n)"
  shows "skipped w d' i"
proof -
  consider "d' = d" "n = 0"
    | html language where "d' = add_decorations language (textContent (code_elements d ! i))
                   (parentElement (code_elements d ! i)) (set_highlighted w i html d)"
    using step_cases [of w i d] assms(3) by auto
  then show ?thesis
  proof cases
    case 1
    have "highlight_codeBlock w i d = Inr (d, 0) \<Longrightarrow> skipped w d i"
      using flat_language [OF assms(1,2)]
      by (auto simp: highlight_codeBlock_def skipped_def Let_def
            split: option.splits sum.splits if_splits)
    then show ?thesis using 1 assms(3) by simp
  next
    case 2
    then have "''prism-highlighted'' \<in> set (code_classList (code_elements d' ! i))"
      using assms(2) by (simp add: add_decorations_fields flat_set_highlighted [OF assms(1)])
    then show ?thesis by (simp add: skipped_def Let_def)
  qed
qed


lemma loop_skipped:
  "\<forall>i \<in> set ks. skipped w d i \<Longrightarrow> highlight_loop w ks (d, n) = (d, n)"
  by (induction ks) (simp_all add: skipped_noop)

lemma flat_loop:
  assumes "flat d" and "\<forall>i \<in> set ks. i < length (code_elements d)"
  shows "flat (fst (highlight_loop w ks (d, n)))
     \<and> map selection_of (code_elements (fst (highlight_loop w ks (d, n))))
         = map selection_of (code_elements d)
     \<and> (\<forall>j. skipped w d j \<longrightarrow> skipped w (fst (highlight_loop w ks (d, n))) j)
     \<and> (\<forall>i \<in> set ks. skipped w (fst (highlight_loop w ks (d, n))) i)"
  using assms
proof (induction ks arbitrary: d n)
  case Nil
  then show ?case by simp
next
  case (Cons k ks)
  obtain d' m where step: "highlight_codeBlock w k d = Inr (d', m)"
    using flat_step_total [OF Cons.prems(1), of k w] Cons.prems(2) by auto
  have fl: "flat d'"
    using flat_step [OF Cons.prems(1) step] .
  have sel: "map selection_of (code_elements d') = map selection_of (code_elements d)"
    using flat_step_selection [OF Cons.prems(1) step] .
  have len: "length (code_elements d') = length (code_elements d)"
    using step_length [OF step] .
  have range: "\<forall>i \<in> set ks. i < length (code_elements d')"
    using Cons.prems(2) len by simp
  have keep: "\<And>j. skipped w d j \<Longrightarrow> skipped w d' j"
    using skipped_preserved [OF Cons.prems(1) step] .
  have first: "skipped w d' k"
    using step_establishes [OF Cons.prems(1) _ step] Cons.prems(2) by simp
  have loop: "highlight_loop w (k # ks) (d, n) = highlight_loop w ks (d', n + m)"
    using step by simp
  show ?case
    unfolding loop
    using Cons.IH [OF fl range, of "n + m"] sel keep first by auto
qed

lemma codeBlocks_cong:
  assumes "map selection_of (code_elements d') = map selection_of (code_elements d)"
  shows "codeBlocks platform d' = codeBlocks platform d"
proof -
  have len: "length (code_elements d') = length (code_elements d)"
    using assms by (metis length_map)
  have "\<And>i. i < length (code_elements d) \<Longrightarrow>
      selection_of (code_elements d' ! i) = selection_of (code_elements d ! i)"
    using arg_cong [OF assms, of "\<lambda>xs. xs ! _"] len by (metis nth_map)
  then have "\<And>i. i < length (code_elements d) \<Longrightarrow>
      (in_document (code_elements d' ! i)
         \<and> codeBlockSelector_matches platform (code_elements d' ! i) = Some True)
      = (in_document (code_elements d ! i)
         \<and> codeBlockSelector_matches platform (code_elements d ! i) = Some True)"
    by (simp add: selection_of_def codeBlockSelector_matches_def)
  then show ?thesis
    unfolding codeBlocks_def len by (intro filter_cong) simp_all
qed

lemma codeBlocks_in_range: "\<forall>i \<in> set (codeBlocks platform d). i < length (code_elements d)"
  by (simp add: codeBlocks_def)

lemma flat_highlighter_idempotent:
  assumes "flat d"
  shows "initSyntaxHighlighter w platform again (fst (initSyntaxHighlighter w platform first d))
     = (fst (initSyntaxHighlighter w platform first d), 0)"
proof (cases "platform \<noteq> ''chatgpt'' \<and> platform \<noteq> ''mistral''")
  case True
  then show ?thesis by (simp add: initSyntaxHighlighter_def)
next
  case False
  define d' where "d' = fst (highlight_loop w (codeBlocks platform d) (d, 0))"
  note loop = flat_loop [where w = w and n = 0, OF assms codeBlocks_in_range [of platform d]]
  have same: "codeBlocks platform d' = codeBlocks platform d"
    unfolding d'_def using loop by (intro codeBlocks_cong) simp
  have "\<forall>i \<in> set (codeBlocks platform d). skipped w d' i"
    unfolding d'_def using loop by simp
  then have "highlight_loop w (codeBlocks platform d') (d', 0) = (d', 0)"
    unfolding same by (rule loop_skipped)
  moreover have "initSyntaxHighlighter w platform first d
      = highlight_loop w (codeBlocks platform d) (d, 0)"
    and "initSyntaxHighlighter w platform again d'
      = highlight_loop w (codeBlocks platform d') (d', 0)"
    using False by (auto simp: initSyntaxHighlighter_def)
  ultimately show ?thesis
    by (simp add: d'_def)
qed

lemma marked_codeBlock_skipped:
  "''prism-highlighted'' \<in> set (code_classList (code_elements d ! i))
     \<Longrightarrow> highlight_codeBlock w i d = Inr (d, 0)"
  by (simp add: highlight_codeBlock_def Let_def)

text \<open>
  Claim C2. The claim does not hold of the code for every document. On the page
  \<^verbatim>\<open><p><code>a<code>b</code></code></p><pre><code class="language-js">c</code></pre>\<close>
  all three code elements are selected. The first pass highlights the outer element,
  which takes the inner one out of the document; reading the parent's tag name of the
  inner element then throws outside the per-element \<^verbatim>\<open>try\<close>, the pass ends, and the code
  block in the \<^verbatim>\<open>PRE\<close> is left without the marker. The second pass, on the page exactly as
  the first left it, highlights that block: its count is one, not zero.
\<close>

theorem second_pass_highlights_again:
  "codeBlocks ''chatgpt'' nested_page = [0, 1, 2]
   \<and> snd (initSyntaxHighlighter example_window ''chatgpt'' False nested_page) = 1
   \<and> map code_classList
        (code_elements (fst (initSyntaxHighlighter example_window ''chatgpt'' False nested_page)))
      = [[''prism-highlighted''], [], [''language-js'']]
   \<and> snd (initSyntaxHighlighter example_window ''chatgpt'' True
             (fst (initSyntaxHighlighter example_window ''chatgpt'' False nested_page))) = 1
   \<and> map code_classList
        (code_elements (fst (initSyntaxHighlighter example_window ''chatgpt'' True
             (fst (initSyntaxHighlighter example_window ''chatgpt'' False nested_page)))))
      = [[''prism-highlighted''], [], [''language-js'', ''prism-highlighted'']]"
  by code_simp

section \<open>Properties of the initialisation routine\<close>

lemma clipboard_returns:
  "(if truthy_flag (clipboardEnabled st) then initClipboardManager platform else Inr [])
     = Inr (if truthy_flag (clipboardEnabled st) then [InitClipboardManager platform] else [])"
  by (simp add: initClipboardManager_def)

lemma start_sessionRecorder_calls:
  assumes "start_sessionRecorder env platform st = Inl calls
           \<or> start_sessionRecorder env platform st = Inr calls"
  shows "InitSyntaxHighlighter q \<notin> set calls \<and> InitClipboardManager q \<notin> set calls
     \<and> InitCommandBar q \<notin> set calls \<and> InitThemeManager q t \<notin> set calls
     \<and> (InitSessionRecorder q \<in> set calls \<longrightarrow>
           (\<exists>rec. sessionRecording st = Some rec \<and> truthy_flag (enabled rec))
           \<and> checkConsent env False = Inr True)"
  using assms
  by (auto simp: start_sessionRecorder_def split: option.splits sum.splits if_splits)

text \<open>
  Claim C10. Whenever a platform is detected, for every settings record (also the
  empty one) \<^verbatim>\<open>initializeExtension\<close> calls \<^verbatim>\<open>initThemeManager\<close> with that platform and the
  theme of the settings. The syntax highlighter, the clipboard manager and the command
  bar are started exactly when their flag is truthy, and the session recorder is
  started only when the \<^verbatim>\<open>enabled\<close> flag of the session-recording settings is truthy.
\<close>

theorem theme_manager_unconditional:
  assumes "detectChatbotPlatform url document = Some platform"
  shows "let calls = initializeExtension env url document response;
             st = getSettings response
         in InitThemeManager platform (theme st) \<in> set calls
            \<and> (InitSyntaxHighlighter platform \<in> set calls \<longleftrightarrow> truthy_flag (syntaxHighlighting st))
            \<and> (InitClipboardManager platform \<in> set calls \<longleftrightarrow> truthy_flag (clipboardEnabled st))
            \<and> (InitCommandBar platform \<in> set calls \<longleftrightarrow> truthy_flag (commandBarEnabled st))
            \<and> (InitSessionRecorder platform \<in> set calls \<longrightarrow>
                  (\<exists>rec. sessionRecording st = Some rec \<and> truthy_flag (enabled rec)))"
proof -
  define st where "st = getSettings response"
  define recorder_part where "recorder_part =
     (case start_sessionRecorder env platform st of
        Inl calls \<Rightarrow> calls
      | Inr calls \<Rightarrow> calls @ [ObserveDOMChanges platform, AddMessageListener,
                               Log ''Extension initialized successfully''])"
  define highlighter_part where "highlighter_part =
     (if truthy_flag (syntaxHighlighting st) then [InitSyntaxHighlighter platform] else [])"
  define clipboard_part where "clipboard_part =
     (if truthy_flag (clipboardEnabled st) then [InitClipboardManager platform] else [])"
  define commandBar_part where "commandBar_part =
     (if truthy_flag (commandBarEnabled st) then [InitCommandBar platform] else [])"
  have calls: "initializeExtension env url document response
      = [Log ''Initializing extension''] @ highlighter_part @ clipboard_part
        @ [InitThemeManager platform (theme st)] @ commandBar_part @ recorder_part"
    by (simp add: initializeExtension_def assms clipboard_returns Let_def st_def [symmetric]
          recorder_part_def highlighter_part_def clipboard_part_def commandBar_part_def)
  obtain rest where rest: "start_sessionRecorder env platform st = Inl rest
                           \<or> start_sessionRecorder env platform st = Inr rest"
    by (cases "start_sessionRecorder env platform st") auto
  note none = start_sessionRecorder_calls [OF rest]
  have rp: "set recorder_part \<subseteq> set rest \<union> {ObserveDOMChanges platform, AddMessageListener,
                               Log ''Extension initialized successfully''}"
    using rest by (auto simp: recorder_part_def)
  have r1: "InitSyntaxHighlighter platform \<notin> set recorder_part"
    and r2: "InitClipboardManager platform \<notin> set recorder_part"
    and r3: "InitCommandBar platform \<notin> set recorder_part"
    and r4: "InitSessionRecorder platform \<in> set recorder_part \<Longrightarrow>
               \<exists>rec. sessionRecording st = Some rec \<and> truthy_flag (enabled rec)"
    using rp none [of platform] by auto
  have one: "InitThemeManager platform (theme st) \<in> set (initializeExtension env url document response)"
    by (simp add: calls)
  have two: "InitSyntaxHighlighter platform \<in> set (initializeExtension env url document response)
      \<longleftrightarrow> truthy_flag (syntaxHighlighting st)"
    using r1 by (simp add: calls highlighter_part_def clipboard_part_def commandBar_part_def)
  have three: "InitClipboardManager platform \<in> set (initializeExtension env url document response)
      \<longleftrightarrow> truthy_flag (clipboardEnabled st)"
    using r2 by (simp add: calls highlighter_part_def clipboard_part_def commandBar_part_def)
  have four: "InitCommandBar platform \<in> set (initializeExtension env url document response)
      \<longleftrightarrow> truthy_flag (commandBarEnabled st)"
    using r3 by (simp add: calls highlighter_part_def clipboard_part_def commandBar_part_def)
  have five: "InitSessionRecorder platform \<in> set (initializeExtension env url document response)
      \<longrightarrow> (\<exists>rec. sessionRecording st = Some rec \<and> truthy_flag (enabled rec))"
    using r4 by (simp add: calls highlighter_part_def clipboard_part_def commandBar_part_def)
  show ?thesis
    unfolding Let_def st_def [symmetric]
    using one two three four five by blast
qed

theorem theme_manager_unconditional_witness:
  "detectChatbotPlatform ''https://chat.openai.com/c/1'' page_three = Some ''chatgpt''
   \<and> initializeExtension env_consenting ''https://chat.openai.com/c/1'' page_three (Some all_disabled)
       = [Log ''Initializing extension'', InitThemeManager ''chatgpt'' None,
          ObserveDOMChanges ''chatgpt'', AddMessageListener,
          Log ''Extension initialized successfully'']"
proof -
  have detected: "detectChatbotPlatform ''https://chat.openai.com/c/1'' page_three = Some ''chatgpt''"
    by code_simp
  have calls: "initializeExtension env_consenting ''https://chat.openai.com/c/1'' page_three (Some all_disabled)
       = [Log ''Initializing extension'', InitThemeManager ''chatgpt'' None,
          ObserveDOMChanges ''chatgpt'', AddMessageListener,
          Log ''Extension initialized successfully'']"
    by code_simp
  show ?thesis
    using theme_manager_unconditional [OF detected, of env_consenting "Some all_disabled"]
    by (simp add: detected calls)
qed

end
